theory Spec2Isabelle
  imports Complex_Main "HOL-Library.Sublist"
begin

section \<open>The update-thesis route: \<^verbatim>\<open>PUT /api/admin/thesis/[id]\<close>\<close>

text \<open>
  A shallow embedding of \<^verbatim>\<open>src/app/api/admin/thesis/[id]/route.js\<close>: the handler that
  \<^verbatim>\<open>withRolePermission("MODIFY_THESIS")\<close> wraps. The database behind the Prisma client is
  an explicit state, passed in and returned; every \<^verbatim>\<open>throw\<close> is a value of \<open>exn\<close>, caught by
  the model of the handler's \<^verbatim>\<open>catch\<close> block.
\<close>

subsection \<open>JSON values\<close>

text \<open>
  What \<^verbatim>\<open>req.json()\<close> resolves to. A number is held by its value; the handler only looks
  at whether it is zero and at its type. An object is the list of its properties.
\<close>

datatype json =
    JNull
  | JBoolean bool
  | JNumber rat
  | JString string
  | JArray "json list"
  | JObject "(string \<times> json) list"

text \<open>JavaScript's truthiness, as \<^verbatim>\<open>!body\<close> tests it.\<close>

fun truthy :: "json \<Rightarrow> bool" where
  "truthy JNull = False"
| "truthy (JBoolean b) = b"
| "truthy (JNumber n) = (n \<noteq> 0)"
| "truthy (JString s) = (s \<noteq> [])"
| "truthy (JArray xs) = True"
| "truthy (JObject kvs) = True"

text \<open>The nullish coalescing operator \<^verbatim>\<open>a ?? b\<close>, an absent value being \<open>None\<close>.\<close>

definition coalesce :: "'a option \<Rightarrow> 'a \<Rightarrow> 'a" where
  "coalesce a b = (case a of None \<Rightarrow> b | Some v \<Rightarrow> v)"

subsection \<open>The validation schema (zod)\<close>

text \<open>
  The schema of the route as zod 3 parses it: \<^verbatim>\<open>parse\<close> returns the validated object or
  throws a \<^verbatim>\<open>ZodError\<close>, whose \<^verbatim>\<open>errors\<close> are its issues. An issue is held by its code
  (with what the code carries: the expected and received types, the minimum, the received
  value) and its path; its message follows from these.
\<close>

datatype path_seg = Key string | Index nat

datatype ZodIssueCode =
    invalid_type string string
  | too_small nat
  | invalid_enum_value string

datatype ZodIssue = ZodIssue (code: ZodIssueCode) (path: "path_seg list")

datatype ThesisStatus = Pending | Approved | Rejected

fun getParsedType :: "json \<Rightarrow> string" where
  "getParsedType JNull = ''null''"
| "getParsedType (JBoolean b) = ''boolean''"
| "getParsedType (JNumber n) = ''number''"
| "getParsedType (JString s) = ''string''"
| "getParsedType (JArray xs) = ''array''"
| "getParsedType (JObject kvs) = ''object''"

text \<open>
  \<^verbatim>\<open>z.string()\<close> and \<^verbatim>\<open>z.string().min(n)\<close>: the argument is the bound of the \<^verbatim>\<open>min\<close>
  check, \<open>None\<close> without one.
\<close>

definition ZodString_parse :: "nat option \<Rightarrow> path_seg list \<Rightarrow> json \<Rightarrow> ZodIssue list + string" where
  "ZodString_parse minimum p v =
     (case v of
        JString s \<Rightarrow>
          (case minimum of
             None \<Rightarrow> Inr s
           | Some n \<Rightarrow> if length s < n then Inl [ZodIssue (too_small n) p] else Inr s)
      | _ \<Rightarrow> Inl [ZodIssue (invalid_type ''string'' (getParsedType v)) p])"

text \<open>
  The elements of \<^verbatim>\<open>z.array(z.string())\<close>: every element is parsed, at the path of its
  index, and the issues of all of them are collected.
\<close>

fun ZodArray_items :: "path_seg list \<Rightarrow> nat \<Rightarrow> json list \<Rightarrow> ZodIssue list \<times> string list" where
  "ZodArray_items p i [] = ([], [])"
| "ZodArray_items p i (x # xs) =
     (case ZodArray_items p (Suc i) xs of
        (es, vs) \<Rightarrow>
          (case ZodString_parse None (p @ [Index i]) x of
             Inl e \<Rightarrow> (e @ es, vs)
           | Inr s \<Rightarrow> (es, s # vs)))"

definition ZodArray_parse :: "path_seg list \<Rightarrow> json \<Rightarrow> ZodIssue list + string list" where
  "ZodArray_parse p v =
     (case v of
        JArray xs \<Rightarrow>
          (case ZodArray_items p 0 xs of
             (es, vs) \<Rightarrow> if es = [] then Inr vs else Inl es)
      | _ \<Rightarrow> Inl [ZodIssue (invalid_type ''array'' (getParsedType v)) p])"

text \<open>
  \<^verbatim>\<open>z.enum(["Pending", "Approved", "Rejected"])\<close>. The expected type that zod reports for
  a value that is no string is the quoted options joined by a bar.
\<close>

definition enum_expected :: string where
  "enum_expected =
     [CHR 0x27] @ ''Pending'' @ [CHR 0x27] @ '' | '' @
     [CHR 0x27] @ ''Approved'' @ [CHR 0x27] @ '' | '' @
     [CHR 0x27] @ ''Rejected'' @ [CHR 0x27]"

definition ZodEnum_parse :: "path_seg list \<Rightarrow> json \<Rightarrow> ZodIssue list + ThesisStatus" where
  "ZodEnum_parse p v =
     (case v of
        JString s \<Rightarrow>
          if s = ''Pending'' then Inr Pending
          else if s = ''Approved'' then Inr Approved
          else if s = ''Rejected'' then Inr Rejected
          else Inl [ZodIssue (invalid_enum_value s) p]
      | _ \<Rightarrow> Inl [ZodIssue (invalid_type enum_expected (getParsedType v)) p])"

text \<open>\<^verbatim>\<open>.optional()\<close>: an absent property (\<^verbatim>\<open>undefined\<close>) is accepted as it is.\<close>

definition ZodOptional_parse ::
  "(json \<Rightarrow> ZodIssue list + 'a) \<Rightarrow> json option \<Rightarrow> ZodIssue list + 'a option" where
  "ZodOptional_parse inner v =
     (case v of
        None \<Rightarrow> Inr None
      | Some x \<Rightarrow> (case inner x of Inl es \<Rightarrow> Inl es | Inr a \<Rightarrow> Inr (Some a)))"

definition issues_of :: "ZodIssue list + 'a \<Rightarrow> ZodIssue list" where
  "issues_of r = (case r of Inl es \<Rightarrow> es | Inr a \<Rightarrow> [])"

text \<open>The object that \<^verbatim>\<open>updateThesisSchema.parse\<close> returns: the six keys of the schema.\<close>

record parsedBody =
  p_title :: "string option"
  p_author_name :: "string option"
  p_category :: "string option"
  p_keywords :: "string list option"
  p_abstract :: "string option"
  p_status :: "ThesisStatus option"

text \<open>
  \<^verbatim>\<open>updateThesisSchema.parse(body)\<close>: \<open>Inl\<close> is the thrown \<^verbatim>\<open>ZodError\<close>'s issues. A
  \<^verbatim>\<open>z.object\<close> wants an object, parses each key of its shape in the order of the shape, collects
  every issue, and strips the keys it does not know.
\<close>

definition updateThesisSchema_parse :: "json \<Rightarrow> ZodIssue list + parsedBody" where
  "updateThesisSchema_parse body =
     (case body of
        JObject kvs \<Rightarrow>
          (let r_title = ZodOptional_parse (ZodString_parse (Some 1) [Key ''title''])
                           (map_of kvs ''title'');
               r_author_name = ZodOptional_parse (ZodString_parse (Some 1) [Key ''author_name''])
                           (map_of kvs ''author_name'');
               r_category = ZodOptional_parse (ZodString_parse None [Key ''category''])
                           (map_of kvs ''category'');
               r_keywords = ZodOptional_parse (ZodArray_parse [Key ''keywords''])
                           (map_of kvs ''keywords'');
               r_abstract = ZodOptional_parse (ZodString_parse None [Key ''abstract''])
                           (map_of kvs ''abstract'');
               r_status = ZodOptional_parse (ZodEnum_parse [Key ''status''])
                           (map_of kvs ''status'')
           in (case (r_title, r_author_name, r_category, r_keywords, r_abstract, r_status) of
                 (Inr t, Inr a, Inr c, Inr k, Inr ab, Inr s) \<Rightarrow>
                   Inr \<lparr>p_title = t, p_author_name = a, p_category = c,
                        p_keywords = k, p_abstract = ab, p_status = s\<rparr>
               | _ \<Rightarrow>
                   Inl (issues_of r_title @ issues_of r_author_name @ issues_of r_category
                        @ issues_of r_keywords @ issues_of r_abstract @ issues_of r_status)))
      | _ \<Rightarrow> Inl [ZodIssue (invalid_type ''object'' (getParsedType body)) []])"




subsection \<open>The database behind the Prisma client\<close>

text \<open>
  Modelled from the spec: the Prisma schema is not among the sources. The rows hold the
  columns that the handler reads and writes, with the types of the spec's data model
  (a thesis: a large-integer identifier, title, category, keywords, abstract, a status of
  the fixed enumeration, an author reference and two timestamps; a user: identifier,
  username, email; a history entry: user reference, action label, description). A timestamp
  is a JavaScript \<^verbatim>\<open>Date\<close>, held by its time value (milliseconds since the epoch).
\<close>

record User =
  id' :: int
  username :: string
  email :: string

record Thesis =
  thesis_id :: int
  title :: string
  category :: string
  keywords' :: json
  abstract' :: string
  status :: ThesisStatus
  author_id :: int
  created_at :: int
  updated_at :: int

record History =
  user_id :: int
  action :: string
  description :: string

record db =
  theses :: "int \<rightharpoonup> Thesis"
  users :: "User list"
  histories :: "History list"

text \<open>What the handler's calls can throw.\<close>

datatype exn =
    SyntaxError_json
  | ZodError "ZodIssue list"
  | SyntaxError_BigInt
  | ValueOutOfRange
  | RecordNotFound
  | TypeError_undefined string
  | RangeError_time

text \<open>
  The identifier column of a thesis is a signed 64-bit integer (the handler passes a
  \<^verbatim>\<open>BigInt\<close>, of any size): the store has rows only under identifiers of that range, and
  rejects, with an error, a query for an identifier outside it.
\<close>

definition int64 :: "int \<Rightarrow> bool" where
  "int64 i = (- 9223372036854775808 \<le> i \<and> i \<le> 9223372036854775807)"

text \<open>
  What a thesis query returns: the scalar columns of the row, and the \<^verbatim>\<open>author\<close> relation
  only when the query asks for it (\<^verbatim>\<open>include: { author: true }\<close>); without, the returned
  object has no \<^verbatim>\<open>author\<close> property. \<^verbatim>\<open>prisma.thesis.findUnique\<close> resolves to the row
  of the identifier when there is one; when there is none, to \<^verbatim>\<open>null\<close> (\<open>Inr None\<close>) for an
  identifier that the column can hold, and it throws for one that the column cannot hold.
\<close>

record ThesisPayload =
  row :: Thesis
  author :: "User option"

definition thesis_findUnique :: "db \<Rightarrow> int \<Rightarrow> bool \<Rightarrow> exn + ThesisPayload option" where
  "thesis_findUnique d tid include_author =
     (case theses d tid of
        Some t \<Rightarrow>
          Inr (Some \<lparr>row = t,
                     author = (if include_author
                               then find (\<lambda>u. id' u = author_id t) (users d) else None)\<rparr>)
      | None \<Rightarrow> if int64 tid then Inr None else Inl ValueOutOfRange)"

definition user_findUnique :: "db \<Rightarrow> string \<Rightarrow> User option" where
  "user_findUnique d name = find (\<lambda>u. username u = name) (users d)"

text \<open>The \<^verbatim>\<open>data\<close> of the update: the six columns that the handler assigns.\<close>

record ThesisUpdateInput =
  d_title :: string
  d_category :: string
  d_keywords :: json
  d_abstract :: string
  d_status :: ThesisStatus
  d_author_id :: int

text \<open>
  \<^verbatim>\<open>prisma.thesis.update\<close>: the row of that identifier gets the six columns of \<open>data\<close>;
  the identifier and the creation timestamp stay. The handler passes no \<^verbatim>\<open>updated_at\<close>:
  that column is the store's to set (the spec's data model sets it apart as the column
  that changes with every update), and the value it gets is a parameter here, the clock's
  \<open>now\<close>. Prisma throws when no row has the identifier.
\<close>

definition updated_row :: "Thesis \<Rightarrow> ThesisUpdateInput \<Rightarrow> int \<Rightarrow> Thesis" where
  "updated_row t data now =
     t\<lparr>title := d_title data, category := d_category data,
       keywords' := d_keywords data, abstract' := d_abstract data,
       status := d_status data, author_id := d_author_id data,
       updated_at := now\<rparr>"

definition thesis_update ::
  "db \<Rightarrow> int \<Rightarrow> ThesisUpdateInput \<Rightarrow> int \<Rightarrow> exn + (Thesis \<times> db)" where
  "thesis_update d tid data now =
     (case theses d tid of
        None \<Rightarrow> Inl (if int64 tid then RecordNotFound else ValueOutOfRange)
      | Some t \<Rightarrow>
          Inr (updated_row t data now,
               d\<lparr>theses := (theses d)(tid \<mapsto> updated_row t data now)\<rparr>))"

definition history_create :: "db \<Rightarrow> History \<Rightarrow> db" where
  "history_create d h = d\<lparr>histories := histories d @ [h]\<rparr>"

text \<open>The writes a call performs, in the order it performs them.\<close>

datatype db_write = Thesis_update int ThesisUpdateInput | History_create History

subsection \<open>Serialising identifiers and timestamps\<close>

text \<open>\<^verbatim>\<open>BigInt.prototype.toString()\<close>: the decimal numeral, with a minus sign when negative.\<close>

definition digit_char :: "nat \<Rightarrow> char" where
  "digit_char n = ''0123456789'' ! n"

fun decimal :: "nat \<Rightarrow> string" where
  "decimal n = (if n < 10 then [digit_char n] else decimal (n div 10) @ [digit_char (n mod 10)])"

declare decimal.simps [simp del]

definition BigInt_toString :: "int \<Rightarrow> string" where
  "BigInt_toString i = (if i < 0 then CHR ''-'' # decimal (nat (- i)) else decimal (nat i))"

text \<open>
  \<^verbatim>\<open>Date.prototype.toISOString()\<close>, on the time value \<open>t\<close> of the date. The day number
  \<open>t div 86400000\<close> is turned into a date of the proleptic Gregorian calendar by counting
  from 1 March of year 0 in cycles of 400 years (146097 days), centuries (36524 days),
  four years (1461 days) and years; the months are counted from March.
\<close>

definition civil_from_days :: "int \<Rightarrow> int \<times> int \<times> int" where
  "civil_from_days days =
     (let z = days + 719468;
          era = z div 146097;
          doe = z mod 146097;
          c = min 3 (doe div 36524);
          doc = doe - c * 36524;
          q = doc div 1461;
          doq = doc mod 1461;
          yq = min 3 (doq div 365);
          doy = doq - yq * 365;
          y = era * 400 + c * 100 + q * 4 + yq;
          mp = (5 * doy + 2) div 153;
          d = doy - (153 * mp + 2) div 5 + 1;
          m = (if mp < 10 then mp + 3 else mp - 9)
      in (if m \<le> 2 then y + 1 else y, m, d))"

text \<open>\<^verbatim>\<open>String(n).padStart(w, "0")\<close>.\<close>

definition pad :: "nat \<Rightarrow> int \<Rightarrow> string" where
  "pad w n = replicate (w - length (decimal (nat n))) CHR ''0'' @ decimal (nat n)"

text \<open>The year: four digits from 0 to 9999, a sign and six digits otherwise.\<close>

definition year_string :: "int \<Rightarrow> string" where
  "year_string y =
     (if 0 \<le> y \<and> y \<le> 9999 then pad 4 y
      else (if y < 0 then CHR ''-'' else CHR ''+'') # pad 6 (abs y))"

text \<open>
  A \<^verbatim>\<open>Date\<close> holds a time value of at most 8.64e15 milliseconds either side of the epoch;
  any other is the invalid date, on which \<^verbatim>\<open>toISOString\<close> throws a \<^verbatim>\<open>RangeError\<close>.
\<close>

definition toISOString :: "int \<Rightarrow> exn + string" where
  "toISOString t =
     (if - 8640000000000000 \<le> t \<and> t \<le> 8640000000000000 then
        (case civil_from_days (t div 86400000) of
           (y, m, d) \<Rightarrow>
             Inr (year_string y @ ''-'' @ pad 2 m @ ''-'' @ pad 2 d @ ''T''
                  @ pad 2 (t div 3600000 mod 24) @ '':'' @ pad 2 (t div 60000 mod 60) @ '':''
                  @ pad 2 (t div 1000 mod 60) @ ''.'' @ pad 3 (t mod 1000) @ ''Z''))
      else Inl RangeError_time)"

fun status_string :: "ThesisStatus \<Rightarrow> string" where
  "status_string Pending = ''Pending''"
| "status_string Approved = ''Approved''"
| "status_string Rejected = ''Rejected''"

subsection \<open>Requests and responses\<close>

text \<open>
  What the handler reads of a request: \<open>id_BigInt\<close> is the value of \<^verbatim>\<open>BigInt(id)\<close> for
  the path parameter (\<open>None\<close> when \<^verbatim>\<open>BigInt\<close> throws a \<^verbatim>\<open>SyntaxError\<close>, the parameter being
  no integer literal); \<open>req_json\<close> is what \<^verbatim>\<open>req.json()\<close> resolves to (\<open>None\<close> when it
  rejects with a \<^verbatim>\<open>SyntaxError\<close>, the body being empty or no JSON text);
  \<open>currentUser\<close> is what \<^verbatim>\<open>getUserFromSession(req)\<close> resolves to, the acting user
  (\<open>None\<close> when it resolves to no user). That helper is not among the sources, so its
  result is a part of the request here.
\<close>

record request =
  id_BigInt :: "int option"
  req_json :: "json option"
  currentUser :: "User option"

text \<open>The JSON object of a response, by its keys; a key that is not set is \<open>None\<close>.\<close>

record json_body =
  message :: string
  errors :: "ZodIssue list option"
  error :: "exn option"
  thesis' :: "json option"

record response =
  payload :: json_body
  status' :: nat

definition message_only :: "string \<Rightarrow> json_body" where
  "message_only m = \<lparr>message = m, errors = None, error = None, thesis' = None\<rparr>"

definition NextResponse_json :: "json_body \<Rightarrow> nat \<Rightarrow> response" where
  "NextResponse_json b s = \<lparr>payload = b, status' = s\<rparr>"

subsection \<open>The handler\<close>

text \<open>
  Step 3, the author lookup: the user of that username when the body names one, the
  handler's variable \<^verbatim>\<open>author\<close> staying undefined (\<open>None\<close>) otherwise; \<open>Inl\<close> is the
  response returned when no user has the name.
\<close>

definition find_author :: "db \<Rightarrow> parsedBody \<Rightarrow> response + User option" where
  "find_author d parsedBody =
     (case p_author_name parsedBody of
        None \<Rightarrow> Inr None
      | Some name \<Rightarrow>
          if name = [] then Inr None
          else (case user_findUnique d name of
                  None \<Rightarrow> Inl (NextResponse_json (message_only ''Author not found'') 404)
                | Some u \<Rightarrow> Inr (Some u)))"

text \<open>
  Step 4, the \<^verbatim>\<open>data\<close> of the update: each column is the body's value, or the fetched
  row's when the body has none. \<open>author'\<close> is the handler's variable \<^verbatim>\<open>author\<close>.
\<close>

definition update_data :: "parsedBody \<Rightarrow> User option \<Rightarrow> Thesis \<Rightarrow> ThesisUpdateInput" where
  "update_data parsedBody author' thesis =
     \<lparr>d_title = coalesce (p_title parsedBody) (title thesis),
      d_category = coalesce (p_category parsedBody) (category thesis),
      d_keywords = coalesce (map_option (\<lambda>ks. JArray (map JString ks)) (p_keywords parsedBody))
                     (keywords' thesis),
      d_abstract = coalesce (p_abstract parsedBody) (abstract' thesis),
      d_status = coalesce (p_status parsedBody) (status thesis),
      d_author_id = coalesce (map_option id' author') (author_id thesis)\<rparr>"

text \<open>
  Step 5, the \<^verbatim>\<open>thesisResponse\<close> object literal, its properties evaluated in order.
  Reading \<^verbatim>\<open>username\<close> of an \<^verbatim>\<open>author\<close> property that the fetched thesis does not have
  throws a \<^verbatim>\<open>TypeError\<close>.
\<close>

definition thesisResponse :: "Thesis \<Rightarrow> User option \<Rightarrow> ThesisPayload \<Rightarrow> exn + json" where
  "thesisResponse updatedThesis author' thesis =
     (case (case author' of
              Some a \<Rightarrow> Inr (username a)
            | None \<Rightarrow>
                (case author thesis of
                   None \<Rightarrow> Inl (TypeError_undefined ''username'')
                 | Some u \<Rightarrow> Inr (username u))) of
        Inl e \<Rightarrow> Inl e
      | Inr author_name \<Rightarrow>
          (case toISOString (created_at updatedThesis) of
             Inl e \<Rightarrow> Inl e
           | Inr created \<Rightarrow>
               (case toISOString (updated_at updatedThesis) of
                  Inl e \<Rightarrow> Inl e
                | Inr updated \<Rightarrow>
                    Inr (JObject
                      [(''thesis_id'', JString (BigInt_toString (thesis_id updatedThesis))),
                       (''title'', JString (title updatedThesis)),
                       (''author_name'', JString author_name),
                       (''category'', JString (category updatedThesis)),
                       (''keywords'', keywords' updatedThesis),
                       (''abstract'', JString (abstract' updatedThesis)),
                       (''status'', JString (status_string (status updatedThesis))),
                       (''created_at'', JString created),
                       (''updated_at'', JString updated)]))))"

text \<open>Step 6, the history entry: the acting user, the action and the description.\<close>

definition history_entry :: "User \<Rightarrow> Thesis \<Rightarrow> History" where
  "history_entry currentUser' updatedThesis =
     \<lparr>user_id = id' currentUser',
      action = ''Updated Thesis'',
      description = ''Thesis titled '' @ [CHR 0x22] @ title updatedThesis @ [CHR 0x22]
                    @ '' updated by '' @ email currentUser'\<rparr>"

text \<open>
  The body of the \<^verbatim>\<open>try\<close> block. The result is the response returned or the exception
  thrown (\<open>Inl\<close>), the database as the call leaves it, and the writes performed. \<open>now\<close> is
  the clock of the store at the update.
\<close>

definition PUT_try :: "int \<Rightarrow> request \<Rightarrow> db \<Rightarrow> (exn + response) \<times> db \<times> db_write list" where
  "PUT_try now req d =
     (case req_json req of
        None \<Rightarrow> (Inl SyntaxError_json, d, [])
      | Some body \<Rightarrow>
          if \<not> truthy body then
            (Inr (NextResponse_json (message_only ''Request body is empty or malformed'') 400),
             d, [])
          else
            (case updateThesisSchema_parse body of
               Inl issues \<Rightarrow> (Inl (ZodError issues), d, [])
             | Inr parsedBody \<Rightarrow>
                 (case id_BigInt req of
                    None \<Rightarrow> (Inl SyntaxError_BigInt, d, [])
                  | Some tid \<Rightarrow>
                      (case thesis_findUnique d tid False of
                         Inl e \<Rightarrow> (Inl e, d, [])
                       | Inr None \<Rightarrow>
                           (Inr (NextResponse_json (message_only ''Thesis not found'') 404), d, [])
                       | Inr (Some thesis) \<Rightarrow>
                           (case find_author d parsedBody of
                              Inl r \<Rightarrow> (Inr r, d, [])
                            | Inr author' \<Rightarrow>
                                (let data = update_data parsedBody author' (row thesis)
                                 in (case thesis_update d tid data now of
                                       Inl e \<Rightarrow> (Inl e, d, [])
                                     | Inr (updatedThesis, d1) \<Rightarrow>
                                         (case thesisResponse updatedThesis author' thesis of
                                            Inl e \<Rightarrow> (Inl e, d1, [Thesis_update tid data])
                                          | Inr tr \<Rightarrow>
                                              (case currentUser req of
                                                 None \<Rightarrow>
                                                   (Inl (TypeError_undefined ''id''), d1,
                                                    [Thesis_update tid data])
                                               | Some cu \<Rightarrow>
                                                   (Inr (NextResponse_json
                                                      \<lparr>message = ''Thesis updated successfully'',
                                                       errors = None, error = None,
                                                       thesis' = Some tr\<rparr> 200),
                                                    history_create d1
                                                      (history_entry cu updatedThesis),
                                                    [Thesis_update tid data,
                                                     History_create
                                                       (history_entry cu updatedThesis)]))))))))))"

text \<open>
  The \<^verbatim>\<open>catch\<close> block: a \<^verbatim>\<open>ZodError\<close> becomes a 400 with the issues, every other
  exception a 500 with the error.
\<close>

definition catch_block :: "exn \<Rightarrow> response" where
  "catch_block e =
     (case e of
        ZodError issues \<Rightarrow>
          NextResponse_json
            \<lparr>message = ''Validation failed'', errors = Some issues, error = None,
             thesis' = None\<rparr> 400
      | _ \<Rightarrow>
          NextResponse_json
            \<lparr>message = ''Internal Server Error'', errors = None, error = Some e,
             thesis' = None\<rparr> 500)"

text \<open>The handler: the \<^verbatim>\<open>try\<close> block under its \<^verbatim>\<open>catch\<close>.\<close>

definition PUT :: "int \<Rightarrow> request \<Rightarrow> db \<Rightarrow> response \<times> db \<times> db_write list" where
  "PUT now req d =
     (case PUT_try now req d of
        (Inr r, d', ws) \<Rightarrow> (r, d', ws)
      | (Inl e, d', ws) \<Rightarrow> (catch_block e, d', ws))"

subsection \<open>Formats of the serialised fields\<close>

text \<open>
  A decimal numeral: digits, after a minus sign at most. \<open>decimal_value\<close> reads one back.
\<close>

definition is_digit :: "char \<Rightarrow> bool" where
  "is_digit c = (c \<in> set ''0123456789'')"

definition decimal_numeral :: "string \<Rightarrow> bool" where
  "decimal_numeral s =
     (case s of
        [] \<Rightarrow> False
      | c # cs \<Rightarrow> if c = CHR ''-'' then cs \<noteq> [] \<and> list_all is_digit cs
                 else list_all is_digit s)"

definition digit_value :: "char \<Rightarrow> nat" where
  "digit_value c = length (takeWhile (\<lambda>x. x \<noteq> c) ''0123456789'')"

definition digits_value :: "string \<Rightarrow> nat" where
  "digits_value s = foldl (\<lambda>a c. 10 * a + digit_value c) 0 s"

definition decimal_value :: "string \<Rightarrow> int" where
  "decimal_value s =
     (case s of
        [] \<Rightarrow> 0
      | c # cs \<Rightarrow> if c = CHR ''-'' then - int (digits_value cs) else int (digits_value s))"

text \<open>
  A string against a pattern in which \<open>#\<close> stands for a digit and every other character
  for itself; the two forms of an ISO 8601 date-time in UTC with milliseconds, the second
  with the expanded year.
\<close>

fun matches :: "string \<Rightarrow> string \<Rightarrow> bool" where
  "matches [] [] = True"
| "matches (p # ps) (c # cs) = ((if p = CHR ''#'' then is_digit c else c = p) \<and> matches ps cs)"
| "matches [] (c # cs) = False"
| "matches (p # ps) [] = False"

definition iso8601 :: "string \<Rightarrow> bool" where
  "iso8601 s =
     (matches ''####-##-##T##:##:##.###Z'' s
      \<or> matches ''+######-##-##T##:##:##.###Z'' s
      \<or> matches ''-######-##-##T##:##:##.###Z'' s)"

text \<open>
  Reading a date-time string back, as \<^verbatim>\<open>Date.parse\<close> does for the two forms above: the
  fields are read as decimal numbers at their places, checked against the calendar, and
  turned into a time value with the day number of the date (the days of the years since
  1970, of the months before, and of the month) and the milliseconds of the day. A year
  \<^verbatim>\<open>-000000\<close> is not a date, nor is a time value further than 8.64e15 milliseconds from
  the epoch. (An hour of 24, which \<^verbatim>\<open>Date.parse\<close> takes for the end of a day and
  \<^verbatim>\<open>toISOString\<close> never writes, is not read.)
\<close>

definition leap_year :: "int \<Rightarrow> bool" where
  "leap_year y = (y mod 4 = 0 \<and> (y mod 100 \<noteq> 0 \<or> y mod 400 = 0))"

definition DayFromYear :: "int \<Rightarrow> int" where
  "DayFromYear y =
     365 * (y - 1970) + (y - 1969) div 4 - (y - 1901) div 100 + (y - 1601) div 400"

text \<open>
  The days of the \<open>y\<close> years that follow 1 March of year 0, the day from which
  \<open>civil_from_days\<close> counts.
\<close>

definition march_days :: "int \<Rightarrow> int" where
  "march_days y = 365 * y + y div 4 - y div 100 + y div 400"

definition days_before_month :: "int \<Rightarrow> int \<Rightarrow> int" where
  "days_before_month y m =
     [0, 31, 59, 90, 120, 151, 181, 212, 243, 273, 304, 334] ! nat (m - 1)
     + (if leap_year y \<and> 2 < m then 1 else 0)"

definition days_in_month :: "int \<Rightarrow> int \<Rightarrow> int" where
  "days_in_month y m =
     (if m = 2 then (if leap_year y then 29 else 28)
      else if m = 4 \<or> m = 6 \<or> m = 9 \<or> m = 11 then 30 else 31)"

definition MakeDay :: "int \<Rightarrow> int \<Rightarrow> int \<Rightarrow> int" where
  "MakeDay y m d = DayFromYear y + days_before_month y m + (d - 1)"

definition MakeTime :: "int \<Rightarrow> int \<Rightarrow> int \<Rightarrow> int \<Rightarrow> int" where
  "MakeTime h mi sec ms = h * 3600000 + mi * 60000 + sec * 1000 + ms"

definition MakeDate :: "int \<Rightarrow> int \<Rightarrow> int" where
  "MakeDate day time = day * 86400000 + time"

definition field :: "nat \<Rightarrow> nat \<Rightarrow> string \<Rightarrow> int" where
  "field off len s = int (digits_value (take len (drop off s)))"

definition iso8601_fields :: "string \<Rightarrow> (int \<times> int \<times> int \<times> int \<times> int \<times> int \<times> int) option" where
  "iso8601_fields s =
     (if matches ''####-##-##T##:##:##.###Z'' s then
        Some (field 0 4 s, field 5 2 s, field 8 2 s, field 11 2 s, field 14 2 s, field 17 2 s,
              field 20 3 s)
      else if matches ''+######-##-##T##:##:##.###Z'' s then
        Some (field 1 6 s, field 8 2 s, field 11 2 s, field 14 2 s, field 17 2 s, field 20 2 s,
              field 23 3 s)
      else if matches ''-######-##-##T##:##:##.###Z'' s \<and> field 1 6 s \<noteq> 0 then
        Some (- field 1 6 s, field 8 2 s, field 11 2 s, field 14 2 s, field 17 2 s,
              field 20 2 s, field 23 3 s)
      else None)"

definition TimeClip :: "int \<Rightarrow> int option" where
  "TimeClip t = (if - 8640000000000000 \<le> t \<and> t \<le> 8640000000000000 then Some t else None)"

definition iso8601_time_value :: "string \<Rightarrow> int option" where
  "iso8601_time_value s =
     (case iso8601_fields s of
        None \<Rightarrow> None
      | Some (y, m, d, h, mi, sec, ms) \<Rightarrow>
          if 1 \<le> m \<and> m \<le> 12 \<and> 1 \<le> d \<and> d \<le> days_in_month y m
             \<and> h \<le> 23 \<and> mi \<le> 59 \<and> sec \<le> 59
          then TimeClip (MakeDate (MakeDay y m d) (MakeTime h mi sec ms))
          else None)"

subsection \<open>Example data\<close>

definition admin :: User where
  "admin = \<lparr>id' = 1, username = ''admin'', email = ''admin@example.org''\<rparr>"

definition alice :: User where
  "alice = \<lparr>id' = 7, username = ''alice'', email = ''alice@example.org''\<rparr>"

definition bob :: User where
  "bob = \<lparr>id' = 8, username = ''bob'', email = ''bob@example.org''\<rparr>"

definition thesis_X :: Thesis where
  "thesis_X =
     \<lparr>thesis_id = 1, title = ''X'', category = ''NLP'', keywords' = JArray [JString ''nets''],
      abstract' = ''An abstract'', status = Pending, author_id = 7,
      created_at = 0, updated_at = 0\<rparr>"

definition db0 :: db where
  "db0 = \<lparr>theses = [1 \<mapsto> thesis_X], users = [admin, alice, bob], histories = []\<rparr>"

definition req_of :: "int \<Rightarrow> json \<Rightarrow> request" where
  "req_of i b = \<lparr>id_BigInt = Some i, req_json = Some b, currentUser = Some admin\<rparr>"

definition body_category_AI :: "(string \<times> json) list" where
  "body_category_AI = [(''category'', JString ''AI'')]"

definition body_full :: "(string \<times> json) list" where
  "body_full =
     [(''title'', JString ''Y''), (''author_name'', JString ''bob''),
      (''category'', JString ''AI''), (''keywords'', JArray [JString ''a'', JString ''b'']),
      (''abstract'', JString ''New abstract''), (''status'', JString ''Approved'')]"

definition body_archived :: "(string \<times> json) list" where
  "body_archived = [(''status'', JString ''Archived'')]"

definition body_ghost :: "(string \<times> json) list" where
  "body_ghost = [(''author_name'', JString ''ghost'')]"

definition body_ghost_archived :: "(string \<times> json) list" where
  "body_ghost_archived = [(''author_name'', JString ''ghost''), (''status'', JString ''Archived'')]"

definition body_ghost_title :: "(string \<times> json) list" where
  "body_ghost_title = [(''title'', JString ''New''), (''author_name'', JString ''ghost'')]"

definition parsed_category_AI :: parsedBody where
  "parsed_category_AI =
     \<lparr>p_title = None, p_author_name = None, p_category = Some ''AI'', p_keywords = None,
      p_abstract = None, p_status = None\<rparr>"

definition parsed_full :: parsedBody where
  "parsed_full =
     \<lparr>p_title = Some ''Y'', p_author_name = Some ''bob'', p_category = Some ''AI'',
      p_keywords = Some [''a'', ''b''], p_abstract = Some ''New abstract'',
      p_status = Some Approved\<rparr>"

section \<open>Properties of the handler\<close>

subsection \<open>What the schema accepts\<close>

lemma parse_Inr_object:
  "updateThesisSchema_parse b = Inr pb \<Longrightarrow> \<exists>kvs. b = JObject kvs"
  by (cases b) (simp_all add: updateThesisSchema_parse_def)

lemma parse_Inr_truthy:
  "updateThesisSchema_parse b = Inr pb \<Longrightarrow> truthy b"
  by (cases b) (simp_all add: updateThesisSchema_parse_def)

lemma parse_fields:
  assumes "updateThesisSchema_parse (JObject kvs) = Inr pb"
  shows "ZodOptional_parse (ZodString_parse (Some 1) [Key ''title'']) (map_of kvs ''title'')
           = Inr (p_title pb)"
    and "ZodOptional_parse (ZodString_parse (Some 1) [Key ''author_name''])
           (map_of kvs ''author_name'') = Inr (p_author_name pb)"
    and "ZodOptional_parse (ZodString_parse None [Key ''category'']) (map_of kvs ''category'')
           = Inr (p_category pb)"
    and "ZodOptional_parse (ZodArray_parse [Key ''keywords'']) (map_of kvs ''keywords'')
           = Inr (p_keywords pb)"
    and "ZodOptional_parse (ZodString_parse None [Key ''abstract'']) (map_of kvs ''abstract'')
           = Inr (p_abstract pb)"
    and "ZodOptional_parse (ZodEnum_parse [Key ''status'']) (map_of kvs ''status'')
           = Inr (p_status pb)"
  using assms
  by (auto simp add: updateThesisSchema_parse_def Let_def split: sum.splits)

lemma optional_absent:
  "ZodOptional_parse inner v = Inr r \<Longrightarrow> (r = None) = (v = None)"
  by (auto simp add: ZodOptional_parse_def split: option.splits sum.splits)

lemma optional_string_present:
  assumes "ZodOptional_parse (ZodString_parse m p) (Some v) = Inr r"
  shows "\<exists>s. v = JString s \<and> r = Some s \<and> (m = Some 1 \<longrightarrow> s \<noteq> [])"
  using assms
  by (auto simp add: ZodOptional_parse_def ZodString_parse_def
      split: option.splits json.splits sum.splits if_splits)

lemma array_items_clean:
  "ZodArray_items p i xs = ([], vs) \<Longrightarrow> xs = map JString vs"
proof (induction xs arbitrary: i vs)
  case Nil
  then show ?case by simp
next
  case (Cons x xs)
  obtain es' vs' where rest: "ZodArray_items p (Suc i) xs = (es', vs')"
    by (cases "ZodArray_items p (Suc i) xs")
  from Cons.prems rest show ?case
    using Cons.IH [of "Suc i" vs']
    by (cases x) (auto simp add: ZodString_parse_def)
qed

lemma optional_array_present:
  assumes "ZodOptional_parse (ZodArray_parse p) (Some v) = Inr r"
  shows "\<exists>ks. r = Some ks \<and> v = JArray (map JString ks)"
  using assms
  by (cases v)
    (auto simp add: ZodOptional_parse_def ZodArray_parse_def
      split: sum.splits prod.splits if_splits dest: array_items_clean)

lemma optional_enum_present:
  assumes "ZodOptional_parse (ZodEnum_parse p) (Some v) = Inr r"
  shows "\<exists>s. r = Some s \<and> v = JString (status_string s)"
  using assms
  by (cases v)
    (auto simp add: ZodOptional_parse_def ZodEnum_parse_def split: sum.splits if_splits)

subsection \<open>What the schema reports\<close>



























subsection \<open>The paths through the handler\<close>

lemma status_catch_block: "status' (catch_block e) = 400 \<or> status' (catch_block e) = 500"
  by (cases e) (simp_all add: catch_block_def NextResponse_json_def)

lemma PUT_json_rejects:
  assumes "req_json req = None"
  shows "PUT now req d = (catch_block SyntaxError_json, d, [])"
  using assms by (simp add: PUT_def PUT_try_def)

lemma PUT_falsy_body:
  assumes "req_json req = Some b" and "\<not> truthy b"
  shows "PUT now req d =
    (NextResponse_json (message_only ''Request body is empty or malformed'') 400, d, [])"
  using assms by (simp add: PUT_def PUT_try_def)

lemma PUT_invalid_body:
  assumes "req_json req = Some b" and "truthy b" and "updateThesisSchema_parse b = Inl es"
  shows "PUT now req d = (catch_block (ZodError es), d, [])"
  using assms by (simp add: PUT_def PUT_try_def)

lemma PUT_bad_id:
  assumes "req_json req = Some b" and "updateThesisSchema_parse b = Inr pb"
    and "id_BigInt req = None"
  shows "PUT now req d = (catch_block SyntaxError_BigInt, d, [])"
  using assms parse_Inr_truthy [OF assms(2)] by (simp add: PUT_def PUT_try_def)

lemma PUT_no_thesis:
  assumes "req_json req = Some b" and "updateThesisSchema_parse b = Inr pb"
    and "id_BigInt req = Some tid" and "theses d tid = None" and "int64 tid"
  shows "PUT now req d = (NextResponse_json (message_only ''Thesis not found'') 404, d, [])"
  using assms parse_Inr_truthy [OF assms(2)]
  by (simp add: PUT_def PUT_try_def thesis_findUnique_def)

lemma PUT_id_out_of_range:
  assumes "req_json req = Some b" and "updateThesisSchema_parse b = Inr pb"
    and "id_BigInt req = Some tid" and "theses d tid = None" and "\<not> int64 tid"
  shows "PUT now req d = (catch_block ValueOutOfRange, d, [])"
  using assms parse_Inr_truthy [OF assms(2)]
  by (simp add: PUT_def PUT_try_def thesis_findUnique_def)

text \<open>
  In a store whose rows are all under identifiers of the signed 64-bit range, every lookup
  of an identifier outside the range is rejected.
\<close>

lemma thesis_findUnique_beyond_int64:
  assumes "\<And>i. theses d i \<noteq> None \<Longrightarrow> int64 i" and "\<not> int64 tid"
  shows "thesis_findUnique d tid include_author = Inl ValueOutOfRange"
proof -
  from assms have "theses d tid = None" by blast
  with assms(2) show ?thesis by (simp add: thesis_findUnique_def)
qed

lemma PUT_no_author:
  assumes "req_json req = Some b" and "updateThesisSchema_parse b = Inr pb"
    and "id_BigInt req = Some tid" and "theses d tid = Some t"
    and "find_author d pb = Inl r"
  shows "PUT now req d = (r, d, [])"
  using assms parse_Inr_truthy [OF assms(2)]
  by (simp add: PUT_def PUT_try_def thesis_findUnique_def)

lemma PUT_after_update:
  assumes "req_json req = Some b" and "updateThesisSchema_parse b = Inr pb"
    and "id_BigInt req = Some tid" and "theses d tid = Some t"
    and "find_author d pb = Inr a"
  shows "PUT now req d =
    (case thesisResponse (updated_row t (update_data pb a t) now) a \<lparr>row = t, author = None\<rparr> of
       Inl e \<Rightarrow>
         (catch_block e,
          d\<lparr>theses := (theses d)(tid \<mapsto> updated_row t (update_data pb a t) now)\<rparr>,
          [Thesis_update tid (update_data pb a t)])
     | Inr tr \<Rightarrow>
         (case currentUser req of
            None \<Rightarrow>
              (catch_block (TypeError_undefined ''id''),
               d\<lparr>theses := (theses d)(tid \<mapsto> updated_row t (update_data pb a t) now)\<rparr>,
               [Thesis_update tid (update_data pb a t)])
          | Some cu \<Rightarrow>
              (NextResponse_json
                 \<lparr>message = ''Thesis updated successfully'', errors = None, error = None,
                  thesis' = Some tr\<rparr> 200,
               history_create
                 (d\<lparr>theses := (theses d)(tid \<mapsto> updated_row t (update_data pb a t) now)\<rparr>)
                 (history_entry cu (updated_row t (update_data pb a t) now)),
               [Thesis_update tid (update_data pb a t),
                History_create (history_entry cu (updated_row t (update_data pb a t) now))])))"
  using assms parse_Inr_truthy [OF assms(2)]
  by (simp add: PUT_def PUT_try_def thesis_findUnique_def thesis_update_def Let_def
      split: sum.splits option.splits)


lemma find_author_Inl:
  "find_author d pb = Inl r \<Longrightarrow> r = NextResponse_json (message_only ''Author not found'') 404"
  by (auto simp add: find_author_def split: option.splits if_splits)

lemma find_author_omitted:
  "p_author_name pb = None \<Longrightarrow> find_author d pb = Inr None"
  by (simp add: find_author_def)

lemma find_author_named:
  "p_author_name pb = Some name \<Longrightarrow> name \<noteq> [] \<Longrightarrow>
     find_author d pb =
       (case user_findUnique d name of
          None \<Rightarrow> Inl (NextResponse_json (message_only ''Author not found'') 404)
        | Some u \<Rightarrow> Inr (Some u))"
  by (simp add: find_author_def)

lemma thesisResponse_no_author:
  "thesisResponse u None \<lparr>row = t, author = None\<rparr> = Inl (TypeError_undefined ''username'')"
  by (simp add: thesisResponse_def)

lemma PUT_200:
  assumes ok: "status' (fst (PUT now req d)) = 200"
  shows "\<exists>b pb tid t u cu tr.
      req_json req = Some b \<and> updateThesisSchema_parse b = Inr pb
    \<and> id_BigInt req = Some tid \<and> theses d tid = Some t
    \<and> find_author d pb = Inr (Some u) \<and> currentUser req = Some cu
    \<and> thesisResponse (updated_row t (update_data pb (Some u) t) now) (Some u)
          \<lparr>row = t, author = None\<rparr> = Inr tr
    \<and> PUT now req d =
        (NextResponse_json
           \<lparr>message = ''Thesis updated successfully'', errors = None, error = None,
            thesis' = Some tr\<rparr> 200,
         history_create
           (d\<lparr>theses := (theses d)(tid \<mapsto> updated_row t (update_data pb (Some u) t) now)\<rparr>)
           (history_entry cu (updated_row t (update_data pb (Some u) t) now)),
         [Thesis_update tid (update_data pb (Some u) t),
          History_create (history_entry cu (updated_row t (update_data pb (Some u) t) now))])"
proof -
  have caught: False if "PUT now req d = (catch_block e, d', ws)" for e d' ws
    using that ok status_catch_block [of e] by auto
  show ?thesis
  proof (cases "req_json req")
    case None
    from PUT_json_rejects [OF None, of now d] caught show ?thesis by fastforce
  next
    case (Some b)
    show ?thesis
    proof (cases "truthy b")
      case False
      from PUT_falsy_body [OF Some False, of now d] ok show ?thesis
        by (simp add: NextResponse_json_def)
    next
      case True
      show ?thesis
      proof (cases "updateThesisSchema_parse b")
        case (Inl es)
        from PUT_invalid_body [OF Some True Inl, of now d] caught show ?thesis by fastforce
      next
        case (Inr pb)
        show ?thesis
        proof (cases "id_BigInt req")
          case None
          from PUT_bad_id [OF Some Inr None, of now d] caught show ?thesis by fastforce
        next
          case tid: (Some tid)
          show ?thesis
          proof (cases "theses d tid")
            case None
            show ?thesis
            proof (cases "int64 tid")
              case True
              from PUT_no_thesis [OF Some Inr tid None True, of now] ok show ?thesis
                by (simp add: NextResponse_json_def)
            next
              case False
              from PUT_id_out_of_range [OF Some Inr tid None False, of now] caught
              show ?thesis by fastforce
            qed
          next
            case t: (Some t)
            show ?thesis
            proof (cases "find_author d pb")
              case (Inl r)
              from PUT_no_author [OF Some Inr tid t Inl, of now] find_author_Inl [OF Inl] ok
              show ?thesis by (simp add: NextResponse_json_def)
            next
              case a: (Inr a)
              note run = PUT_after_update [OF Some Inr tid t a, of now]
              show ?thesis
              proof (cases "thesisResponse (updated_row t (update_data pb a t) now) a
                              \<lparr>row = t, author = None\<rparr>")
                case (Inl e)
                with run caught show ?thesis by fastforce
              next
                case tr: (Inr tr)
                then obtain u where u: "a = Some u"
                  using thesisResponse_no_author by (cases a) auto
                show ?thesis
                proof (cases "currentUser req")
                  case None
                  with run tr caught show ?thesis by fastforce
                next
                  case cu: (Some cu)
                  from run tr cu u Some Inr tid t a show ?thesis by simp
                qed
              qed
            qed
          qed
        qed
      qed
    qed
  qed
qed


lemma user_findUnique_username:
  "user_findUnique d name = Some u \<Longrightarrow> username u = name"
  by (auto simp add: user_findUnique_def find_Some_iff)

lemma find_author_users:
  "users d' = users d \<Longrightarrow> find_author d' pb = find_author d pb"
  by (simp add: find_author_def user_findUnique_def split: option.splits)

lemma author_resolution:
  assumes valid: "updateThesisSchema_parse (JObject kvs) = Inr pb"
    and resolved: "\<forall>name. map_of kvs ''author_name'' = Some (JString name)
                     \<longrightarrow> user_findUnique d name \<noteq> None"
  shows "(map_of kvs ''author_name'' = None \<and> p_author_name pb = None
            \<and> find_author d pb = Inr None)
       \<or> (\<exists>name u. map_of kvs ''author_name'' = Some (JString name)
            \<and> p_author_name pb = Some name \<and> user_findUnique d name = Some u
            \<and> find_author d pb = Inr (Some u))"
proof (cases "map_of kvs ''author_name''")
  case None
  with parse_fields(2) [OF valid] have "p_author_name pb = None"
    using optional_absent by fastforce
  with None show ?thesis by (simp add: find_author_omitted)
next
  case (Some v)
  with parse_fields(2) [OF valid] optional_string_present [of "Some 1" _ v "p_author_name pb"]
  obtain name where name: "v = JString name" "p_author_name pb = Some name" "name \<noteq> []"
    by auto
  with resolved Some obtain u where "user_findUnique d name = Some u" by auto
  with name Some show ?thesis by (simp add: find_author_named)
qed

lemma PUT_stores:
  assumes "req_json req = Some b" and "updateThesisSchema_parse b = Inr pb"
    and "id_BigInt req = Some tid" and "theses d tid = Some t"
    and "find_author d pb = Inr a"
  shows "theses (fst (snd (PUT now req d)))
           = (theses d)(tid \<mapsto> updated_row t (update_data pb a t) now)"
    and "users (fst (snd (PUT now req d))) = users d"
  unfolding PUT_after_update [OF assms]
  by (simp_all add: history_create_def split: sum.splits option.splits)

lemma remerge:
  "updated_row (updated_row t (update_data pb a t) now1)
     (update_data pb a (updated_row t (update_data pb a t) now1)) now2
   = (updated_row t (update_data pb a t) now1)\<lparr>updated_at := now2\<rparr>"
  by (simp add: updated_row_def update_data_def coalesce_def split: option.splits)


lemma description_mentions:
  "sublist (title t') (description (history_entry cu t'))"
  "sublist (email cu) (description (history_entry cu t'))"
proof -
  have "description (history_entry cu t')
          = (''Thesis titled '' @ [CHR 0x22]) @ title t' @ ([CHR 0x22] @ '' updated by '' @ email cu)"
    by (simp add: history_entry_def)
  then show "sublist (title t') (description (history_entry cu t'))"
    unfolding sublist_def by blast
  have "description (history_entry cu t')
          = (''Thesis titled '' @ [CHR 0x22] @ title t' @ [CHR 0x22] @ '' updated by '')
            @ email cu @ []"
    by (simp add: history_entry_def)
  then show "sublist (email cu) (description (history_entry cu t'))"
    unfolding sublist_def by blast
qed


subsection \<open>Decimal numerals\<close>

lemma digit_cases:
  "k < 10 \<Longrightarrow> k = 0 \<or> k = 1 \<or> k = 2 \<or> k = 3 \<or> k = 4 \<or> k = 5 \<or> k = 6 \<or> k = 7 \<or> k = 8
     \<or> k = (9::nat)"
  by arith

lemma is_digit_digit_char: "k < 10 \<Longrightarrow> is_digit (digit_char k)"
  by (drule digit_cases) (auto simp add: is_digit_def digit_char_def)

lemma digit_value_digit_char: "k < 10 \<Longrightarrow> digit_value (digit_char k) = k"
  by (drule digit_cases) (auto simp add: digit_value_def digit_char_def)

lemma not_digit_minus: "\<not> is_digit CHR ''-''"
  by (simp add: is_digit_def)

lemma decimal_digits: "list_all is_digit (decimal n)"
  by (induction n rule: decimal.induct)
    (subst decimal.simps, simp add: is_digit_digit_char)

lemma decimal_nonempty: "decimal n \<noteq> []"
  by (subst decimal.simps) simp

lemma digits_value_snoc: "digits_value (s @ [c]) = 10 * digits_value s + digit_value c"
  by (simp add: digits_value_def)

lemma digits_value_decimal: "digits_value (decimal n) = n"
proof (induction n rule: decimal.induct)
  case (1 n)
  show ?case
  proof (cases "n < 10")
    case True
    then show ?thesis
      by (subst decimal.simps) (simp add: digits_value_def digit_value_digit_char)
  next
    case False
    with 1 show ?thesis
      by (subst decimal.simps) (simp add: digits_value_snoc digit_value_digit_char)
  qed
qed

lemma decimal_length: "0 < w \<Longrightarrow> n < 10 ^ w \<Longrightarrow> length (decimal n) \<le> w"
proof (induction n arbitrary: w rule: decimal.induct)
  case (1 n)
  show ?case
  proof (cases "n < 10")
    case True
    with 1(2) show ?thesis by (subst decimal.simps) simp
  next
    case False
    with 1(2,3) have w: "1 < w" by (cases "w = 1") auto
    then obtain w' where w': "w = Suc w'" "0 < w'" by (cases w) auto
    with 1(3) have "n div 10 < 10 ^ w'" by (simp add: less_mult_imp_div_less mult.commute)
    from 1(1) [OF False w'(2) this] False w' show ?thesis
      by (subst decimal.simps) simp
  qed
qed

lemma decimal_numeral_BigInt_toString: "decimal_numeral (BigInt_toString i)"
proof (cases "i < 0")
  case True
  then show ?thesis
    by (simp add: decimal_numeral_def BigInt_toString_def decimal_digits decimal_nonempty)
next
  case False
  obtain c cs where s: "decimal (nat i) = c # cs"
    using decimal_nonempty [of "nat i"] by (cases "decimal (nat i)") auto
  with decimal_digits [of "nat i"] have "is_digit c" by simp
  with not_digit_minus have "c \<noteq> CHR ''-''" by auto
  with False s decimal_digits [of "nat i"] show ?thesis
    by (simp add: decimal_numeral_def BigInt_toString_def)
qed

lemma decimal_value_BigInt_toString: "decimal_value (BigInt_toString i) = i"
proof (cases "i < 0")
  case True
  then show ?thesis
    by (simp add: decimal_value_def BigInt_toString_def digits_value_decimal)
next
  case False
  obtain c cs where s: "decimal (nat i) = c # cs"
    using decimal_nonempty [of "nat i"] by (cases "decimal (nat i)") auto
  with decimal_digits [of "nat i"] have "is_digit c" by simp
  with not_digit_minus have "c \<noteq> CHR ''-''" by auto
  with False s digits_value_decimal [of "nat i"] show ?thesis
    by (simp add: decimal_value_def BigInt_toString_def)
qed

subsection \<open>Padded fields and patterns\<close>

lemma pad_digits:
  assumes "0 \<le> n" and "n < 10 ^ w" and "0 < w"
  shows "length (pad w n) = w" and "list_all is_digit (pad w n)"
proof -
  from assms have "nat n < 10 ^ w"
    by (metis nat_less_iff of_nat_numeral of_nat_power)
  from decimal_length [OF assms(3) this] show "length (pad w n) = w"
    by (simp add: pad_def)
  have "is_digit CHR ''0''" by (simp add: is_digit_def)
  then have "list_all is_digit (replicate (w - length (decimal (nat n))) CHR ''0'')"
    by (simp add: list_all_iff)
  then show "list_all is_digit (pad w n)"
    by (simp add: pad_def decimal_digits)
qed

lemma matches_digits:
  "list_all is_digit s \<Longrightarrow> matches ps cs \<Longrightarrow> matches (replicate (length s) CHR ''#'' @ ps) (s @ cs)"
  by (induction s) simp_all

lemma matches_2:
  assumes "length s = 2" "list_all is_digit s" "matches ps cs"
  shows "matches (CHR ''#'' # CHR ''#'' # ps) (s @ cs)"
  using matches_digits [OF assms(2,3)] assms(1) by (simp add: numeral_2_eq_2)

lemma matches_3:
  assumes "length s = 3" "list_all is_digit s" "matches ps cs"
  shows "matches (CHR ''#'' # CHR ''#'' # CHR ''#'' # ps) (s @ cs)"
  using matches_digits [OF assms(2,3)] assms(1) by (simp add: numeral_3_eq_3)

lemma matches_4:
  assumes "length s = 4" "list_all is_digit s" "matches ps cs"
  shows "matches (CHR ''#'' # CHR ''#'' # CHR ''#'' # CHR ''#'' # ps) (s @ cs)"
  using matches_digits [OF assms(2,3)] assms(1) by (simp add: eval_nat_numeral)

lemma matches_6:
  assumes "length s = 6" "list_all is_digit s" "matches ps cs"
  shows "matches (CHR ''#'' # CHR ''#'' # CHR ''#'' # CHR ''#'' # CHR ''#'' # CHR ''#'' # ps)
           (s @ cs)"
  using matches_digits [OF assms(2,3)] assms(1) by (simp add: eval_nat_numeral)

lemma matches_time:
  assumes mo: "length mo = 2" "list_all is_digit mo"
    and dd: "length dd = 2" "list_all is_digit dd"
    and hh: "length hh = 2" "list_all is_digit hh"
    and mi: "length mi = 2" "list_all is_digit mi"
    and ss: "length ss = 2" "list_all is_digit ss"
    and ms: "length ms = 3" "list_all is_digit ms"
  shows "matches ''-##-##T##:##:##.###Z''
           (''-'' @ mo @ ''-'' @ dd @ ''T'' @ hh @ '':'' @ mi @ '':'' @ ss @ ''.'' @ ms @ ''Z'')"
proof -
  have "matches ''Z'' ''Z''" by simp
  from matches_3 [OF ms this] have "matches ''.###Z'' (''.'' @ ms @ ''Z'')" by simp
  from matches_2 [OF ss this] have "matches '':##.###Z'' ('':'' @ ss @ ''.'' @ ms @ ''Z'')"
    by simp
  from matches_2 [OF mi this]
  have "matches '':##:##.###Z'' ('':'' @ mi @ '':'' @ ss @ ''.'' @ ms @ ''Z'')" by simp
  from matches_2 [OF hh this]
  have "matches ''T##:##:##.###Z'' (''T'' @ hh @ '':'' @ mi @ '':'' @ ss @ ''.'' @ ms @ ''Z'')"
    by simp
  from matches_2 [OF dd this]
  have "matches ''-##T##:##:##.###Z''
          (''-'' @ dd @ ''T'' @ hh @ '':'' @ mi @ '':'' @ ss @ ''.'' @ ms @ ''Z'')"
    by simp
  from matches_2 [OF mo this] show ?thesis by simp
qed

lemma iso8601_year_string:
  assumes y: "- 999999 \<le> y" "y \<le> 999999" and rest: "matches ''-##-##T##:##:##.###Z'' cs"
  shows "iso8601 (year_string y @ cs)"
proof (cases "0 \<le> y \<and> y \<le> 9999")
  case True
  then have "length (pad 4 y) = 4" "list_all is_digit (pad 4 y)"
    using pad_digits [of y 4] by simp_all
  from matches_4 [OF this rest] True show ?thesis
    by (simp add: iso8601_def year_string_def)
next
  case False
  from y have "length (pad 6 \<bar>y\<bar>) = 6" "list_all is_digit (pad 6 \<bar>y\<bar>)"
    using pad_digits [of "\<bar>y\<bar>" 6] by simp_all
  from matches_6 [OF this rest] False show ?thesis
    by (simp add: iso8601_def year_string_def)
qed

subsection \<open>The calendar date of a day number\<close>

lemma era_day_bounds: "0 \<le> (z::int) mod 146097 \<and> z mod 146097 \<le> 146096"
  by simp

lemma century_number_bounds:
  "0 \<le> (doe::int) \<Longrightarrow> 0 \<le> min 3 (doe div 36524) \<and> min 3 (doe div 36524) \<le> 3"
  by simp

lemma century_bounds:
  "0 \<le> (doe::int) \<Longrightarrow> doe \<le> 146096 \<Longrightarrow>
     0 \<le> doe - min 3 (doe div 36524) * 36524 \<and> doe - min 3 (doe div 36524) * 36524 \<le> 36524"
  by (simp add: min_def) linarith

lemma cycle_bounds:
  "0 \<le> (doc::int) \<Longrightarrow> doc \<le> 36524 \<Longrightarrow> 0 \<le> doc div 1461 \<and> doc div 1461 \<le> 24"
  by linarith

lemma cycle_day_bounds: "0 \<le> (doc::int) mod 1461 \<and> doc mod 1461 \<le> 1460"
  by simp

lemma year_number_bounds:
  "0 \<le> (doq::int) \<Longrightarrow> 0 \<le> min 3 (doq div 365) \<and> min 3 (doq div 365) \<le> 3"
  by simp

lemma year_day_bounds:
  "0 \<le> (doq::int) \<Longrightarrow> doq \<le> 1460 \<Longrightarrow>
     0 \<le> doq - min 3 (doq div 365) * 365 \<and> doq - min 3 (doq div 365) * 365 \<le> 365"
  by (simp add: min_def) linarith

lemma civil_from_days_fields:
  assumes "civil_from_days n = (y, m, d)"
  shows "\<exists>era c q yq doy mp :: int.
      era = (n + 719468) div 146097
    \<and> (0 \<le> c \<and> c \<le> 3) \<and> (0 \<le> q \<and> q \<le> 24) \<and> (0 \<le> yq \<and> yq \<le> 3)
    \<and> (0 \<le> doy \<and> doy \<le> 365) \<and> mp = (5 * doy + 2) div 153
    \<and> (if (if mp < 10 then mp + 3 else mp - 9) \<le> 2
        then era * 400 + c * 100 + q * 4 + yq + 1
        else era * 400 + c * 100 + q * 4 + yq) = y
    \<and> (if mp < 10 then mp + 3 else mp - 9) = m
    \<and> doy - (153 * mp + 2) div 5 + 1 = d"
proof -
  let ?era = "(n + 719468) div 146097"
  let ?doe = "(n + 719468) mod 146097"
  let ?c = "min 3 (?doe div 36524)"
  let ?doc = "?doe - ?c * 36524"
  let ?q = "?doc div 1461"
  let ?doq = "?doc mod 1461"
  let ?yq = "min 3 (?doq div 365)"
  let ?doy = "?doq - ?yq * 365"
  let ?mp = "(5 * ?doy + 2) div 153"
  note ymd = assms [unfolded civil_from_days_def Let_def prod.inject]
  note doe = era_day_bounds [of "n + 719468"]
  note c = century_number_bounds [OF doe [THEN conjunct1]]
  note doc = century_bounds [OF doe [THEN conjunct1] doe [THEN conjunct2]]
  note q = cycle_bounds [OF doc [THEN conjunct1] doc [THEN conjunct2]]
  note doq = cycle_day_bounds [of ?doc]
  note yq = year_number_bounds [OF doq [THEN conjunct1]]
  note doy = year_day_bounds [OF doq [THEN conjunct1] doq [THEN conjunct2]]
  have "?era = (n + 719468) div 146097
    \<and> (0 \<le> ?c \<and> ?c \<le> 3) \<and> (0 \<le> ?q \<and> ?q \<le> 24) \<and> (0 \<le> ?yq \<and> ?yq \<le> 3)
    \<and> (0 \<le> ?doy \<and> ?doy \<le> 365) \<and> ?mp = (5 * ?doy + 2) div 153
    \<and> (if (if ?mp < 10 then ?mp + 3 else ?mp - 9) \<le> 2
        then ?era * 400 + ?c * 100 + ?q * 4 + ?yq + 1
        else ?era * 400 + ?c * 100 + ?q * 4 + ?yq) = y
    \<and> (if ?mp < 10 then ?mp + 3 else ?mp - 9) = m
    \<and> ?doy - (153 * ?mp + 2) div 5 + 1 = d"
    apply (rule conjI, rule refl)
    apply (rule conjI, rule c)
    apply (rule conjI, rule q)
    apply (rule conjI, rule yq)
    apply (rule conjI, rule doy)
    apply (rule conjI, rule refl)
    apply (rule ymd)
    done
  then show ?thesis by (intro exI)
qed

lemma civil_from_days_bounds:
  assumes "civil_from_days n = (y, m, d)"
  shows "1 \<le> m \<and> m \<le> 12 \<and> 1 \<le> d \<and> d \<le> 31"
    and "- 100000000 \<le> n \<Longrightarrow> n \<le> 100000000 \<Longrightarrow> - 999999 \<le> y \<and> y \<le> 999999"
proof -
  from civil_from_days_fields [OF assms]
  obtain era c q yq doy mp :: int where
      era: "era = (n + 719468) div 146097"
    and c: "0 \<le> c \<and> c \<le> 3" and q: "0 \<le> q \<and> q \<le> 24" and yq: "0 \<le> yq \<and> yq \<le> 3"
    and doy: "0 \<le> doy \<and> doy \<le> 365" and mp: "mp = (5 * doy + 2) div 153"
    and y: "(if (if mp < 10 then mp + 3 else mp - 9) \<le> 2
             then era * 400 + c * 100 + q * 4 + yq + 1
             else era * 400 + c * 100 + q * 4 + yq) = y"
    and m: "(if mp < 10 then mp + 3 else mp - 9) = m"
    and d: "doy - (153 * mp + 2) div 5 + 1 = d"
    by blast
  from doy mp have mp': "0 \<le> mp \<and> mp \<le> 11" by linarith
  with m show "1 \<le> m \<and> m \<le> 12 \<and> 1 \<le> d \<and> d \<le> 31"
    using doy mp d by (auto split: if_splits)
  show "- 999999 \<le> y \<and> y \<le> 999999" if "- 100000000 \<le> n" "n \<le> 100000000"
  proof -
    from that era have "- 680 \<le> era \<and> era \<le> 690" by linarith
    with y c q yq show ?thesis by (auto split: if_splits)
  qed
qed

text \<open>
  The day number of the date that \<open>civil_from_days\<close> gives is the day number it was
  given.
\<close>

lemma step_div:
  assumes "0 < (k::int)"
  shows "y div k - (y - 1) div k = (if y mod k = 0 then 1 else 0)"
proof (cases "y mod k = 0")
  case True
  then have y: "y = k * (y div k)" by auto
  then have "y - 1 = k * (y div k - 1) + (k - 1)" by (simp add: algebra_simps)
  with assms have "(y - 1) div k = y div k - 1"
    by (intro int_div_pos_eq [of "y - 1" k "y div k - 1" "k - 1"]) auto
  with True show ?thesis by simp
next
  case False
  from assms have "0 \<le> y mod k" "y mod k < k" by simp_all
  with False have r: "0 \<le> y mod k - 1" "y mod k - 1 < k" by linarith+
  have "y - 1 = k * (y div k) + (y mod k - 1)" by (simp add: algebra_simps)
  with r have "(y - 1) div k = y div k"
    by (intro int_div_pos_eq [of "y - 1" k "y div k" "y mod k - 1"]) auto
  with False show ?thesis by simp
qed

lemma div_shift:
  "b \<noteq> 0 \<Longrightarrow> (a - b * c) div (b::int) = a div b - c"
  using div_mult_self2 [of b a "- c"] by (simp add: algebra_simps)

lemma DayFromYear_shift:
  "365 * (y - 1970) + (a - 492) - (b - 19) + (c - 4) = 365 * (y - 1) + a - b + c - (719162::int)"
  by simp

lemma DayFromYear_march: "DayFromYear y = march_days (y - 1) - 719162"
proof -
  have "(y - 1 - 4 * 492) div 4 = (y - 1) div 4 - 492"
    by (rule div_shift) simp
  then have a: "(y - 1969) div 4 = (y - 1) div 4 - 492" by simp
  have "(y - 1 - 100 * 19) div 100 = (y - 1) div 100 - 19"
    by (rule div_shift) simp
  then have b: "(y - 1901) div 100 = (y - 1) div 100 - 19" by simp
  have "(y - 1 - 400 * 4) div 400 = (y - 1) div 400 - 4"
    by (rule div_shift) simp
  then have c: "(y - 1601) div 400 = (y - 1) div 400 - 4" by simp
  show ?thesis
    unfolding DayFromYear_def march_days_def a b c by (rule DayFromYear_shift)
qed

lemma mod_100_4: "(y::int) mod 100 = 0 \<Longrightarrow> y mod 4 = 0"
proof -
  assume "y mod 100 = 0"
  then have "100 dvd y" by (simp only: mod_eq_0_iff_dvd)
  moreover have "(4::int) dvd 100" by simp
  ultimately have "4 dvd y" by (rule dvd_trans [rotated])
  then show ?thesis by (simp only: mod_eq_0_iff_dvd)
qed

lemma mod_400_100: "(y::int) mod 400 = 0 \<Longrightarrow> y mod 100 = 0"
proof -
  assume "y mod 400 = 0"
  then have "400 dvd y" by (simp only: mod_eq_0_iff_dvd)
  moreover have "(100::int) dvd 400" by simp
  ultimately have "100 dvd y" by (rule dvd_trans [rotated])
  then show ?thesis by (simp only: mod_eq_0_iff_dvd)
qed

lemma leap_year_steps:
  "(if y mod 4 = 0 then 1 else 0) - (if y mod 100 = 0 then 1 else 0)
     + (if y mod 400 = 0 then 1 else (0::int)) = (if leap_year y then 1 else 0)"
proof (cases "y mod 400 = 0")
  case True
  then have "y mod 100 = 0" by (rule mod_400_100)
  then have "y mod 4 = 0" by (rule mod_100_4)
  with True \<open>y mod 100 = 0\<close> show ?thesis by (simp only: leap_year_def) simp
next
  case False
  show ?thesis
  proof (cases "y mod 100 = 0")
    case True
    then have "y mod 4 = 0" by (rule mod_100_4)
    with True False show ?thesis by (simp only: leap_year_def) simp
  next
    case h: False
    with False show ?thesis by (simp only: leap_year_def) simp
  qed
qed

lemma march_days_diff:
  "(365 * y + a - b + c) - (365 * (y - 1) + a' - b' + c')
     = 365 + ((a - a') - (b - b') + (c - (c'::int)))"
  by simp

lemma march_days_step:
  "march_days y = march_days (y - 1) + 365 + (if leap_year y then 1 else 0)"
proof -
  have "march_days y - march_days (y - 1)
      = 365 + ((y div 4 - (y - 1) div 4) - (y div 100 - (y - 1) div 100)
        + (y div 400 - (y - 1) div 400))"
    unfolding march_days_def by (rule march_days_diff)
  also have "\<dots> = 365 + ((if y mod 4 = 0 then 1 else 0) - (if y mod 100 = 0 then 1 else 0)
        + (if y mod 400 = 0 then 1 else 0))"
    by (simp only: step_div [of 4 y, simplified] step_div [of 100 y, simplified]
        step_div [of 400 y, simplified])
  also have "\<dots> = 365 + (if leap_year y then 1 else 0)"
    by (simp only: leap_year_steps)
  finally have "march_days y - march_days (y - 1) = 365 + (if leap_year y then 1 else 0)" .
  then show ?thesis by (simp only: algebra_simps)
qed

lemma march_days_cycles:
  assumes "0 \<le> c" "c \<le> 3" "0 \<le> q" "q \<le> 24" "0 \<le> yq" "yq \<le> 3"
  shows "march_days (era * 400 + c * 100 + q * 4 + yq)
           = era * 146097 + c * 36524 + q * 1461 + yq * 365"
proof -
  let ?Y = "era * 400 + c * 100 + q * 4 + yq"
  have "?Y div 4 = era * 100 + c * 25 + q"
    using assms by (intro int_div_pos_eq [of ?Y 4 _ yq]) auto
  moreover have "?Y div 100 = era * 4 + c"
    using assms by (intro int_div_pos_eq [of ?Y 100 _ "q * 4 + yq"]) auto
  moreover have "?Y div 400 = era"
    using assms by (intro int_div_pos_eq [of ?Y 400 _ "c * 100 + q * 4 + yq"]) auto
  ultimately show ?thesis
    by (simp add: march_days_def)
qed

lemma leap_after_long_year:
  assumes "0 \<le> c" "c \<le> 3" "0 \<le> q" "q \<le> 24" "q = 24 \<longrightarrow> c = 3"
  shows "leap_year (era * 400 + c * 100 + q * 4 + 3 + 1)"
proof -
  let ?Y = "era * 400 + c * 100 + q * 4 + 3 + 1"
  have four: "?Y mod 4 = 0"
    by (intro int_mod_pos_eq [of ?Y 4 "era * 100 + c * 25 + q + 1" 0]) auto
  show ?thesis
  proof (cases "q = 24")
    case True
    with assms have "c = 3" by simp
    with True have "?Y mod 400 = 0"
      by (intro int_mod_pos_eq [of ?Y 400 "era + 1" 0]) auto
    with four show ?thesis by (simp add: leap_year_def)
  next
    case False
    with assms have "?Y mod 100 = q * 4 + 4"
      by (intro int_mod_pos_eq [of ?Y 100 "era * 4 + c" "q * 4 + 4"]) auto
    with assms have "?Y mod 100 \<noteq> 0" by simp
    with four show ?thesis by (simp add: leap_year_def)
  qed
qed

lemma day_number_sum:
  "era * 146097 + doe = (z::int) \<Longrightarrow> doc = doe - c * 36524 \<Longrightarrow> q * 1461 + doq = doc \<Longrightarrow>
     doy = doq - yq * 365 \<Longrightarrow>
     z = era * 146097 + c * 36524 + q * 1461 + yq * 365 + doy"
  by simp

lemma long_year:
  "0 \<le> (doq::int) \<Longrightarrow> doq \<le> 1460 \<Longrightarrow> doq - min 3 (doq div 365) * 365 = 365 \<Longrightarrow>
     min 3 (doq div 365) = 3 \<and> doq = 1460"
  by (simp add: min_def split: if_splits)

lemma long_century:
  "0 \<le> (doe::int) \<Longrightarrow> doe - min 3 (doe div 36524) * 36524 = 36524 \<Longrightarrow>
     min 3 (doe div 36524) = 3"
  by (simp add: min_def split: if_splits)

lemma last_day_of_cycle:
  "(doc::int) div 1461 = 24 \<Longrightarrow> doc mod 1461 = 1460 \<Longrightarrow> doc = 36524"
  using div_mult_mod_eq [of doc 1461] by simp

lemma civil_from_days_day_number:
  assumes "civil_from_days n = (y, m, d)"
  shows "\<exists>era c q yq doy mp :: int.
      n + 719468 = era * 146097 + c * 36524 + q * 1461 + yq * 365 + doy
    \<and> (doy = 365 \<longrightarrow> yq = 3 \<and> (q = 24 \<longrightarrow> c = 3))
    \<and> (0 \<le> c \<and> c \<le> 3) \<and> (0 \<le> q \<and> q \<le> 24) \<and> (0 \<le> yq \<and> yq \<le> 3)
    \<and> (0 \<le> doy \<and> doy \<le> 365) \<and> mp = (5 * doy + 2) div 153
    \<and> (if (if mp < 10 then mp + 3 else mp - 9) \<le> 2
        then era * 400 + c * 100 + q * 4 + yq + 1
        else era * 400 + c * 100 + q * 4 + yq) = y
    \<and> (if mp < 10 then mp + 3 else mp - 9) = m
    \<and> doy - (153 * mp + 2) div 5 + 1 = d"
proof -
  let ?era = "(n + 719468) div 146097"
  let ?doe = "(n + 719468) mod 146097"
  let ?c = "min 3 (?doe div 36524)"
  let ?doc = "?doe - ?c * 36524"
  let ?q = "?doc div 1461"
  let ?doq = "?doc mod 1461"
  let ?yq = "min 3 (?doq div 365)"
  let ?doy = "?doq - ?yq * 365"
  let ?mp = "(5 * ?doy + 2) div 153"
  note ymd = assms [unfolded civil_from_days_def Let_def prod.inject]
  note doe = era_day_bounds [of "n + 719468"]
  note c = century_number_bounds [OF doe [THEN conjunct1]]
  note doc = century_bounds [OF doe [THEN conjunct1] doe [THEN conjunct2]]
  note q = cycle_bounds [OF doc [THEN conjunct1] doc [THEN conjunct2]]
  note doq = cycle_day_bounds [of ?doc]
  note yq = year_number_bounds [OF doq [THEN conjunct1]]
  note doy = year_day_bounds [OF doq [THEN conjunct1] doq [THEN conjunct2]]
  have sum: "n + 719468 = ?era * 146097 + ?c * 36524 + ?q * 1461 + ?yq * 365 + ?doy"
    by (rule day_number_sum [OF div_mult_mod_eq refl div_mult_mod_eq refl])
  have long: "?doy = 365 \<longrightarrow> ?yq = 3 \<and> (?q = 24 \<longrightarrow> ?c = 3)"
  proof
    assume "?doy = 365"
    from long_year [OF doq [THEN conjunct1] doq [THEN conjunct2] this]
    have yq3: "?yq = 3" and last: "?doq = 1460" by (rule conjunct1, rule conjunct2)
    have "?c = 3" if "?q = 24"
      by (rule long_century [OF doe [THEN conjunct1] last_day_of_cycle [OF that last]])
    with yq3 show "?yq = 3 \<and> (?q = 24 \<longrightarrow> ?c = 3)" by (intro conjI impI)
  qed
  have "n + 719468 = ?era * 146097 + ?c * 36524 + ?q * 1461 + ?yq * 365 + ?doy
    \<and> (?doy = 365 \<longrightarrow> ?yq = 3 \<and> (?q = 24 \<longrightarrow> ?c = 3))
    \<and> (0 \<le> ?c \<and> ?c \<le> 3) \<and> (0 \<le> ?q \<and> ?q \<le> 24) \<and> (0 \<le> ?yq \<and> ?yq \<le> 3)
    \<and> (0 \<le> ?doy \<and> ?doy \<le> 365) \<and> ?mp = (5 * ?doy + 2) div 153
    \<and> (if (if ?mp < 10 then ?mp + 3 else ?mp - 9) \<le> 2
        then ?era * 400 + ?c * 100 + ?q * 4 + ?yq + 1
        else ?era * 400 + ?c * 100 + ?q * 4 + ?yq) = y
    \<and> (if ?mp < 10 then ?mp + 3 else ?mp - 9) = m
    \<and> ?doy - (153 * ?mp + 2) div 5 + 1 = d"
    apply (rule conjI, rule sum)
    apply (rule conjI, rule long)
    apply (rule conjI, rule c)
    apply (rule conjI, rule q)
    apply (rule conjI, rule yq)
    apply (rule conjI, rule doy)
    apply (rule conjI, rule refl)
    apply (rule ymd)
    done
  then show ?thesis by (intro exI)
qed

lemma div_bounds:
  assumes "0 < (b::int)"
  shows "b * (a div b) \<le> a" and "a < b * (a div b) + b"
proof -
  from assms have "0 \<le> a mod b" "a mod b < b" by simp_all
  with mult_div_mod_eq [of b a] show "b * (a div b) \<le> a" "a < b * (a div b) + b"
    by linarith+
qed


lemma month_index:
  "0 \<le> (mp::int) \<Longrightarrow> mp \<le> 11 \<Longrightarrow>
     mp = 0 \<or> mp = 1 \<or> mp = 2 \<or> mp = 3 \<or> mp = 4 \<or> mp = 5 \<or> mp = 6 \<or> mp = 7 \<or> mp = 8
     \<or> mp = 9 \<or> mp = 10 \<or> mp = 11"
  by presburger

lemma month_table:
  assumes doy: "0 \<le> (doy::int)" "doy \<le> 365" and mp: "mp = (5 * doy + 2) div 153"
    and m: "m = (if mp < 10 then mp + 3 else mp - 9)"
    and d: "d = doy - (153 * mp + 2) div 5 + 1"
  shows "[0, 31, 59, 90, 120, 151, 181, 212, 243, 273, 304, 334] ! nat (m - 1) + (d - 1)
           = (if 2 < m then 59 + doy else doy - 306)"
    and "1 \<le> m \<and> m \<le> 12 \<and> 1 \<le> d"
    and "d \<le> (if m = 2 then (if doy = 365 then 29 else 28)
               else if m = 4 \<or> m = 6 \<or> m = 9 \<or> m = 11 then 30 else 31)"
proof -
  have b: "153 * mp \<le> 5 * doy + 2" "5 * doy + 2 < 153 * mp + 153"
    unfolding mp by (rule div_bounds; simp)+
  with doy have "0 \<le> mp" "mp \<le> 11" by linarith+
  then have k: "mp = 0 \<or> mp = 1 \<or> mp = 2 \<or> mp = 3 \<or> mp = 4 \<or> mp = 5 \<or> mp = 6 \<or> mp = 7
     \<or> mp = 8 \<or> mp = 9 \<or> mp = 10 \<or> mp = 11"
    by (rule month_index)
  from k show "[0, 31, 59, 90, 120, 151, 181, 212, 243, 273, 304, 334] ! nat (m - 1) + (d - 1)
           = (if 2 < m then 59 + doy else doy - 306)"
    unfolding m d by (elim disjE; simp)
  from k b doy show "1 \<le> m \<and> m \<le> 12 \<and> 1 \<le> d"
    unfolding m d by (elim disjE; simp)
  from k b doy show "d \<le> (if m = 2 then (if doy = 365 then 29 else 28)
               else if m = 4 \<or> m = 6 \<or> m = 9 \<or> m = 11 then 30 else 31)"
    unfolding m d by (elim disjE; simp)
qed

lemma MakeDay_march:
  assumes "2 < m"
    and "[0, 31, 59, 90, 120, 151, 181, 212, 243, 273, 304, 334] ! nat (m - 1) + (d - 1) = 59 + doy"
  shows "MakeDay Y m d = march_days Y + doy - 719468"
proof -
  let ?T = "[0, 31, 59, 90, 120, 151, 181, 212, 243, 273, 304, 334] ! nat (m - 1)"
  have "MakeDay Y m d = march_days (Y - 1) - 719162 + (?T + (if leap_year Y then 1 else 0)) + (d - 1)"
    using assms(1) by (simp only: MakeDay_def days_before_month_def DayFromYear_march) simp
  also have "\<dots> = (march_days (Y - 1) + 365 + (if leap_year Y then 1 else 0)) + (?T + (d - 1)) - 719527"
    by simp
  also have "\<dots> = march_days Y + (59 + doy) - 719527"
    by (simp only: march_days_step [symmetric] assms(2))
  finally show ?thesis by simp
qed

lemma MakeDay_january:
  assumes "\<not> 2 < m"
    and "[0, 31, 59, 90, 120, 151, 181, 212, 243, 273, 304, 334] ! nat (m - 1) + (d - 1) = doy - 306"
  shows "MakeDay (Y + 1) m d = march_days Y + doy - 719468"
proof -
  let ?T = "[0, 31, 59, 90, 120, 151, 181, 212, 243, 273, 304, 334] ! nat (m - 1)"
  have "MakeDay (Y + 1) m d = march_days (Y + 1 - 1) - 719162 + (?T + 0) + (d - 1)"
    using assms(1) by (simp only: MakeDay_def days_before_month_def DayFromYear_march) simp
  also have "\<dots> = march_days Y + (?T + (d - 1)) - 719162"
    by simp
  also have "\<dots> = march_days Y + (doy - 306) - 719162"
    by (simp only: assms(2))
  finally show ?thesis by simp
qed

lemma MakeDay_civil_from_days:
  assumes "civil_from_days n = (y, m, d)"
  shows "MakeDay y m d = n" and "1 \<le> m \<and> m \<le> 12 \<and> 1 \<le> d \<and> d \<le> days_in_month y m"
proof -
  from civil_from_days_day_number [OF assms]
  obtain era c q yq doy mp :: int where
      sum: "n + 719468 = era * 146097 + c * 36524 + q * 1461 + yq * 365 + doy"
    and long: "doy = 365 \<longrightarrow> yq = 3 \<and> (q = 24 \<longrightarrow> c = 3)"
    and c: "0 \<le> c \<and> c \<le> 3" and q: "0 \<le> q \<and> q \<le> 24" and yq: "0 \<le> yq \<and> yq \<le> 3"
    and doy: "0 \<le> doy \<and> doy \<le> 365" and mp: "mp = (5 * doy + 2) div 153"
    and y: "(if (if mp < 10 then mp + 3 else mp - 9) \<le> 2
             then era * 400 + c * 100 + q * 4 + yq + 1
             else era * 400 + c * 100 + q * 4 + yq) = y"
    and m: "(if mp < 10 then mp + 3 else mp - 9) = m"
    and d: "doy - (153 * mp + 2) div 5 + 1 = d"
    by blast
  define Y where "Y = era * 400 + c * 100 + q * 4 + yq"
  have "march_days Y = era * 146097 + c * 36524 + q * 1461 + yq * 365"
    unfolding Y_def using c q yq by (intro march_days_cycles) simp_all
  with sum have n: "march_days Y + doy - 719468 = n" by simp
  from y have ym: "y = (if 2 < m then Y else Y + 1)"
    unfolding m Y_def by (simp split: if_splits)
  note tab = month_table [OF doy [THEN conjunct1] doy [THEN conjunct2] mp m [symmetric] d [symmetric]]
  show "MakeDay y m d = n"
  proof (cases "2 < m")
    case True
    with tab(1) have "MakeDay Y m d = march_days Y + doy - 719468"
      by (intro MakeDay_march) simp_all
    with True ym n show ?thesis by simp
  next
    case False
    with tab(1) have "MakeDay (Y + 1) m d = march_days Y + doy - 719468"
      by (intro MakeDay_january) simp_all
    with False ym n show ?thesis by simp
  qed
  have "d \<le> days_in_month y m"
  proof (cases "m = 2 \<and> doy = 365")
    case True
    with long have "yq = 3" "q = 24 \<longrightarrow> c = 3" by simp_all
    with c q have "leap_year (era * 400 + c * 100 + q * 4 + 3 + 1)"
      by (intro leap_after_long_year) simp_all
    with True ym \<open>yq = 3\<close> have "leap_year y" by (simp add: Y_def)
    with True tab(3) show ?thesis by (simp add: days_in_month_def)
  next
    case False
    with tab(3) show ?thesis by (auto simp add: days_in_month_def split: if_splits)
  qed
  with tab(2) show "1 \<le> m \<and> m \<le> 12 \<and> 1 \<le> d \<and> d \<le> days_in_month y m" by simp
qed

subsection \<open>The format of a serialised timestamp\<close>

lemma day_number_bounds:
  "- 8640000000000000 \<le> (t::int) \<Longrightarrow> t \<le> 8640000000000000 \<Longrightarrow>
     - 100000000 \<le> t div 86400000 \<and> t div 86400000 \<le> 100000000"
  by linarith

lemma mod_two_digits:
  assumes "0 < k" and "k \<le> 100"
  shows "0 \<le> (x::int) mod k" and "x mod k < 10 ^ 2"
proof -
  from assms(1) show "0 \<le> x mod k" by simp
  from assms(1) have "x mod k < k" by simp
  with assms(2) show "x mod k < 10 ^ 2" by simp
qed

lemma mod_three_digits:
  shows "0 \<le> (x::int) mod 1000" and "x mod 1000 < 10 ^ 3"
  by simp_all

lemma toISOString_iso8601:
  assumes "toISOString t = Inr s"
  shows "iso8601 s"
proof -
  from assms have range: "- 8640000000000000 \<le> t" "t \<le> 8640000000000000"
    by (auto simp add: toISOString_def split: if_splits)
  obtain y m d where ymd: "civil_from_days (t div 86400000) = (y, m, d)"
    by (cases "civil_from_days (t div 86400000)")
  let ?rest = "''-'' @ pad 2 m @ ''-'' @ pad 2 d @ ''T'' @ pad 2 (t div 3600000 mod 24) @ '':''
      @ pad 2 (t div 60000 mod 60) @ '':'' @ pad 2 (t div 1000 mod 60) @ ''.''
      @ pad 3 (t mod 1000) @ ''Z''"
  from assms range ymd have s: "s = year_string y @ ?rest"
    by (simp add: toISOString_def)
  from civil_from_days_bounds(1) [OF ymd]
  have m: "0 \<le> m" "m < 10 ^ 2" and d: "0 \<le> d" "d < 10 ^ 2" by simp_all
  have hh: "0 \<le> t div 3600000 mod 24" "t div 3600000 mod 24 < 10 ^ 2"
    by (rule mod_two_digits; simp)+
  have mi: "0 \<le> t div 60000 mod 60" "t div 60000 mod 60 < 10 ^ 2"
    by (rule mod_two_digits; simp)+
  have ss: "0 \<le> t div 1000 mod 60" "t div 1000 mod 60 < 10 ^ 2"
    by (rule mod_two_digits; simp)+
  have ms: "0 \<le> t mod 1000" "t mod 1000 < 10 ^ 3"
    by (rule mod_three_digits)+
  have rest: "matches ''-##-##T##:##:##.###Z'' ?rest"
    by (rule matches_time)
      (simp_all add: pad_digits [OF m] pad_digits [OF d] pad_digits [OF hh] pad_digits [OF mi]
        pad_digits [OF ss] pad_digits [OF ms])
  from civil_from_days_bounds(2) [OF ymd]  day_number_bounds [OF range]
  have "- 999999 \<le> y" "y \<le> 999999" by simp_all
  from iso8601_year_string [OF this rest] s show ?thesis by simp
qed

lemma thesisResponse_fields:
  assumes "thesisResponse t' a p = Inr tr"
  shows "\<exists>name c u. toISOString (created_at t') = Inr c \<and> toISOString (updated_at t') = Inr u
    \<and> tr = JObject
        [(''thesis_id'', JString (BigInt_toString (thesis_id t'))),
         (''title'', JString (title t')),
         (''author_name'', JString name),
         (''category'', JString (category t')),
         (''keywords'', keywords' t'),
         (''abstract'', JString (abstract' t')),
         (''status'', JString (status_string (status t'))),
         (''created_at'', JString c),
         (''updated_at'', JString u)]"
  using assms
  by (auto simp add: thesisResponse_def split: sum.splits)


subsection \<open>Reading a serialised timestamp back\<close>

lemma time_sum:
  "t = 1000 * a + ms \<Longrightarrow> a = 60 * b + s \<Longrightarrow> b = 60 * c + mi \<Longrightarrow> c = 24 * dd + h \<Longrightarrow>
     dd * 86400000 + (h * 3600000 + mi * 60000 + s * 1000 + ms) = (t::int)"
  by simp

lemma MakeDate_time_of_day:
  "MakeDate (t div 86400000)
     (MakeTime (t div 3600000 mod 24) (t div 60000 mod 60) (t div 1000 mod 60) (t mod 1000)) = t"
proof -
  have a: "t div 60000 = t div 1000 div 60"
    using zdiv_zmult2_eq [of 60 t 1000] by simp
  have b: "t div 3600000 = t div 60000 div 60"
    using zdiv_zmult2_eq [of 60 t 60000] by simp
  have c: "t div 86400000 = t div 3600000 div 24"
    using zdiv_zmult2_eq [of 24 t 3600000] by simp
  show ?thesis
    unfolding MakeDate_def MakeTime_def
    by (rule time_sum [of _ "t div 1000" _ "t div 60000" _ "t div 3600000"])
      (simp_all only: a b c mult_div_mod_eq)
qed

lemma digits_value_zeros: "digits_value (replicate k CHR ''0'' @ s) = digits_value s"
proof -
  have "foldl (\<lambda>a c. 10 * a + digit_value c) 0 (replicate k CHR ''0'') = 0"
    by (induction k) (simp_all add: digit_value_def)
  then show ?thesis by (simp add: digits_value_def)
qed

lemma digits_value_pad: "0 \<le> n \<Longrightarrow> int (digits_value (pad w n)) = n"
  by (simp add: pad_def digits_value_zeros digits_value_decimal)

lemma field_at:
  "length a = off \<Longrightarrow> length b = len \<Longrightarrow> field off len (a @ b @ r) = int (digits_value b)"
  by (simp add: field_def)

lemma time_fields:
  assumes p: "length p = L"
    and mo: "length mo = 2" and dd: "length dd = 2" and hh: "length hh = 2"
    and mi: "length mi = 2" and ss: "length ss = 2" and ms: "length ms = 3"
    and s: "s = p @ ''-'' @ mo @ ''-'' @ dd @ ''T'' @ hh @ '':'' @ mi @ '':'' @ ss @ ''.'' @ ms @ ''Z''"
  shows "field (L + 1) 2 s = int (digits_value mo)"
    and "field (L + 4) 2 s = int (digits_value dd)"
    and "field (L + 7) 2 s = int (digits_value hh)"
    and "field (L + 10) 2 s = int (digits_value mi)"
    and "field (L + 13) 2 s = int (digits_value ss)"
    and "field (L + 16) 3 s = int (digits_value ms)"
proof -
  show "field (L + 1) 2 s = int (digits_value mo)"
    using field_at [of "p @ ''-''" "L + 1" mo 2] p mo by (simp add: s)
  show "field (L + 4) 2 s = int (digits_value dd)"
    using field_at [of "p @ ''-'' @ mo @ ''-''" "L + 4" dd 2] p mo dd by (simp add: s)
  show "field (L + 7) 2 s = int (digits_value hh)"
    using field_at [of "p @ ''-'' @ mo @ ''-'' @ dd @ ''T''" "L + 7" hh 2] p mo dd hh
    by (simp add: s)
  show "field (L + 10) 2 s = int (digits_value mi)"
    using field_at [of "p @ ''-'' @ mo @ ''-'' @ dd @ ''T'' @ hh @ '':''" "L + 10" mi 2]
      p mo dd hh mi
    by (simp add: s)
  show "field (L + 13) 2 s = int (digits_value ss)"
    using field_at [of "p @ ''-'' @ mo @ ''-'' @ dd @ ''T'' @ hh @ '':'' @ mi @ '':''" "L + 13" ss 2]
      p mo dd hh mi ss
    by (simp add: s)
  show "field (L + 16) 3 s = int (digits_value ms)"
    using field_at [of "p @ ''-'' @ mo @ ''-'' @ dd @ ''T'' @ hh @ '':'' @ mi @ '':'' @ ss @ ''.''"
        "L + 16" ms 3] p mo dd hh mi ss ms
    by (simp add: s)
qed

lemma iso8601_fields_year_string:
  assumes y: "- 999999 \<le> y" "y \<le> 999999"
    and mo: "length mo = 2" "list_all is_digit mo"
    and dd: "length dd = 2" "list_all is_digit dd"
    and hh: "length hh = 2" "list_all is_digit hh"
    and mi: "length mi = 2" "list_all is_digit mi"
    and ss: "length ss = 2" "list_all is_digit ss"
    and ms: "length ms = 3" "list_all is_digit ms"
  shows "iso8601_fields
           (year_string y @ ''-'' @ mo @ ''-'' @ dd @ ''T'' @ hh @ '':'' @ mi @ '':'' @ ss @ ''.''
              @ ms @ ''Z'')
         = Some (y, int (digits_value mo), int (digits_value dd), int (digits_value hh),
                 int (digits_value mi), int (digits_value ss), int (digits_value ms))"
proof -
  let ?rest = "''-'' @ mo @ ''-'' @ dd @ ''T'' @ hh @ '':'' @ mi @ '':'' @ ss @ ''.'' @ ms @ ''Z''"
  have rest: "matches ''-##-##T##:##:##.###Z'' ?rest"
    by (rule matches_time [OF mo dd hh mi ss ms])
  show ?thesis
  proof (cases "0 \<le> y \<and> y \<le> 9999")
    case True
    then have p: "length (pad 4 y) = 4" "list_all is_digit (pad 4 y)"
      using pad_digits [of y 4] by simp_all
    from matches_4 [OF p rest]
    have form: "matches ''####-##-##T##:##:##.###Z'' (pad 4 y @ ?rest)" by simp
    have year: "field 0 4 (pad 4 y @ ?rest) = y"
      using field_at [of "[]" 0 "pad 4 y" 4 ?rest] p(1) True by (simp add: digits_value_pad)
    note time = time_fields [OF p(1) mo(1) dd(1) hh(1) mi(1) ss(1) ms(1) refl, simplified]
    from True have "year_string y = pad 4 y" by (simp add: year_string_def)
    with form year time show ?thesis
      by (simp add: iso8601_fields_def)
  next
    case False
    from y have p: "length (pad 6 \<bar>y\<bar>) = 6" "list_all is_digit (pad 6 \<bar>y\<bar>)"
      using pad_digits [of "\<bar>y\<bar>" 6] by simp_all
    from matches_6 [OF p rest]
    have digits: "matches ''######-##-##T##:##:##.###Z'' (pad 6 \<bar>y\<bar> @ ?rest)" by simp
    have year: "field 1 6 (sg # pad 6 \<bar>y\<bar> @ ?rest) = \<bar>y\<bar>" for sg
      using field_at [of "[sg]" 1 "pad 6 \<bar>y\<bar>" 6 ?rest] p(1) by (simp add: digits_value_pad)
    have len: "length (sg # pad 6 \<bar>y\<bar>) = 7" for sg
      using p(1) by simp
    note time = time_fields [OF len mo(1) dd(1) hh(1) mi(1) ss(1) ms(1) refl, simplified]
    show ?thesis
    proof (cases "y < 0")
      case True
      then have "year_string y = CHR ''-'' # pad 6 \<bar>y\<bar>" by (simp add: year_string_def)
      moreover have "matches ''-######-##-##T##:##:##.###Z'' (CHR ''-'' # pad 6 \<bar>y\<bar> @ ?rest)"
        using digits by simp
      ultimately show ?thesis
        using True year [of "CHR ''-''"] time [of "CHR ''-''"]
        by (simp add: iso8601_fields_def is_digit_def)
    next
      case positive: False
      with False have "year_string y = CHR ''+'' # pad 6 \<bar>y\<bar>" by (simp add: year_string_def)
      moreover have "matches ''+######-##-##T##:##:##.###Z'' (CHR ''+'' # pad 6 \<bar>y\<bar> @ ?rest)"
        using digits by simp
      ultimately show ?thesis
        using positive year [of "CHR ''+''"] time [of "CHR ''+''"]
        by (simp add: iso8601_fields_def is_digit_def)
    qed
  qed
qed

lemma iso8601_time_value_fields:
  assumes "iso8601_fields s = Some (y, m, d, h, mi, sec, ms)"
    and "1 \<le> m \<and> m \<le> 12 \<and> 1 \<le> d \<and> d \<le> days_in_month y m"
    and "h \<le> 23" "mi \<le> 59" "sec \<le> 59"
  shows "iso8601_time_value s = TimeClip (MakeDate (MakeDay y m d) (MakeTime h mi sec ms))"
  using assms by (simp add: iso8601_time_value_def)

lemma toISOString_time_value:
  assumes "toISOString t = Inr s"
  shows "iso8601_time_value s = Some t"
proof -
  from assms have range: "- 8640000000000000 \<le> t" "t \<le> 8640000000000000"
    by (auto simp add: toISOString_def split: if_splits)
  obtain y m d where ymd: "civil_from_days (t div 86400000) = (y, m, d)"
    by (cases "civil_from_days (t div 86400000)")
  let ?h = "t div 3600000 mod 24" and ?mi = "t div 60000 mod 60" and ?sec = "t div 1000 mod 60"
    and ?ms = "t mod 1000"
  from assms range ymd
  have s: "s = year_string y @ ''-'' @ pad 2 m @ ''-'' @ pad 2 d @ ''T'' @ pad 2 ?h @ '':''
      @ pad 2 ?mi @ '':'' @ pad 2 ?sec @ ''.'' @ pad 3 ?ms @ ''Z''"
    by (simp add: toISOString_def)
  from civil_from_days_bounds(1) [OF ymd]
  have m: "0 \<le> m" "m < 10 ^ 2" and d: "0 \<le> d" "d < 10 ^ 2" by simp_all
  have hh: "0 \<le> ?h" "?h < 10 ^ 2"
    by (rule mod_two_digits; simp)+
  have mi: "0 \<le> ?mi" "?mi < 10 ^ 2"
    by (rule mod_two_digits; simp)+
  have ss: "0 \<le> ?sec" "?sec < 10 ^ 2"
    by (rule mod_two_digits; simp)+
  have ms: "0 \<le> ?ms" "?ms < 10 ^ 3"
    by (rule mod_three_digits)+
  from civil_from_days_bounds(2) [OF ymd] day_number_bounds [OF range]
  have y: "- 999999 \<le> y" "y \<le> 999999" by simp_all
  have "iso8601_fields s
      = Some (y, int (digits_value (pad 2 m)), int (digits_value (pad 2 d)),
          int (digits_value (pad 2 ?h)), int (digits_value (pad 2 ?mi)),
          int (digits_value (pad 2 ?sec)), int (digits_value (pad 3 ?ms)))"
    unfolding s
    by (rule iso8601_fields_year_string [OF y])
      (simp_all add: pad_digits [OF m] pad_digits [OF d] pad_digits [OF hh] pad_digits [OF mi]
        pad_digits [OF ss] pad_digits [OF ms])
  then have fields: "iso8601_fields s = Some (y, m, d, ?h, ?mi, ?sec, ?ms)"
    by (simp only: digits_value_pad [OF m(1)] digits_value_pad [OF d(1)]
        digits_value_pad [OF hh(1)] digits_value_pad [OF mi(1)] digits_value_pad [OF ss(1)]
        digits_value_pad [OF ms(1)])
  have "?h \<le> 23" "?mi \<le> 59" "?sec \<le> 59"
    using pos_mod_bound [of 24 "t div 3600000"] pos_mod_bound [of 60 "t div 60000"]
      pos_mod_bound [of 60 "t div 1000"] by simp_all
  from iso8601_time_value_fields [OF fields MakeDay_civil_from_days(2) [OF ymd] this]
  have "iso8601_time_value s = TimeClip t"
    by (simp only: MakeDay_civil_from_days(1) [OF ymd] MakeDate_time_of_day)
  with range show ?thesis by (simp add: TimeClip_def)
qed

text \<open>A string of the form that is no date of the calendar is not read, a date is.\<close>

lemma iso8601_time_value_no_date: "iso8601_time_value ''9999-99-99T99:99:99.999Z'' = None"
  by (simp add: iso8601_time_value_def iso8601_fields_def field_def digits_value_def
      digit_value_def is_digit_def)

lemma iso8601_time_value_second_day:
  "iso8601_time_value ''1970-01-02T00:00:01.000Z'' = Some 86401000"
  by (simp add: iso8601_time_value_def iso8601_fields_def field_def digits_value_def
      digit_value_def is_digit_def days_in_month_def MakeDate_def MakeDay_def MakeTime_def
      DayFromYear_def days_before_month_def TimeClip_def)

subsection \<open>The successful path, and the example data\<close>

lemma toISOString_valid:
  assumes "- 8640000000000000 \<le> t" and "t \<le> 8640000000000000"
  shows "\<exists>s. toISOString t = Inr s"
  using assms by (simp add: toISOString_def split: prod.splits)

lemma PUT_succeeds:
  assumes body: "req_json req = Some b" and valid: "updateThesisSchema_parse b = Inr pb"
    and ident: "id_BigInt req = Some tid" and found: "theses d tid = Some t"
    and author: "find_author d pb = Inr (Some u)"
    and session: "currentUser req = Some cu"
    and created: "- 8640000000000000 \<le> created_at t" "created_at t \<le> 8640000000000000"
    and clock: "- 8640000000000000 \<le> now" "now \<le> 8640000000000000"
  shows "status' (fst (PUT now req d)) = 200"
proof -
  from toISOString_valid [OF created] obtain c where c: "toISOString (created_at t) = Inr c" ..
  from toISOString_valid [OF clock] obtain n where n: "toISOString now = Inr n" ..
  have "\<exists>tr. thesisResponse (updated_row t (update_data pb (Some u) t) now) (Some u)
               \<lparr>row = t, author = None\<rparr> = Inr tr"
    by (simp add: thesisResponse_def updated_row_def c n)
  then obtain tr where "thesisResponse (updated_row t (update_data pb (Some u) t) now) (Some u)
               \<lparr>row = t, author = None\<rparr> = Inr tr" ..
  with PUT_after_update [OF body valid ident found author, of now] session
  show ?thesis by (simp add: NextResponse_json_def)
qed

lemma parse_category_AI:
  "updateThesisSchema_parse (JObject body_category_AI) = Inr parsed_category_AI"
  by (simp add: updateThesisSchema_parse_def body_category_AI_def parsed_category_AI_def
      ZodOptional_parse_def ZodString_parse_def)

lemma parse_full: "updateThesisSchema_parse (JObject body_full) = Inr parsed_full"
  by (simp add: updateThesisSchema_parse_def body_full_def parsed_full_def
      ZodOptional_parse_def ZodString_parse_def ZodArray_parse_def ZodEnum_parse_def)

lemma parse_archived:
  "updateThesisSchema_parse (JObject body_archived)
     = Inl [ZodIssue (invalid_enum_value ''Archived'') [Key ''status'']]"
  by (simp add: updateThesisSchema_parse_def body_archived_def ZodOptional_parse_def
      ZodEnum_parse_def issues_of_def)

lemma parse_ghost_archived:
  "updateThesisSchema_parse (JObject body_ghost_archived)
     = Inl [ZodIssue (invalid_enum_value ''Archived'') [Key ''status'']]"
  by (simp add: updateThesisSchema_parse_def body_ghost_archived_def ZodOptional_parse_def
      ZodEnum_parse_def ZodString_parse_def issues_of_def)

lemma parse_ghost:
  "updateThesisSchema_parse (JObject body_ghost) =
     Inr \<lparr>p_title = None, p_author_name = Some ''ghost'', p_category = None, p_keywords = None,
          p_abstract = None, p_status = None\<rparr>"
  by (simp add: updateThesisSchema_parse_def body_ghost_def ZodOptional_parse_def
      ZodString_parse_def)

lemma parse_ghost_title:
  "updateThesisSchema_parse (JObject body_ghost_title) =
     Inr \<lparr>p_title = Some ''New'', p_author_name = Some ''ghost'', p_category = None,
          p_keywords = None, p_abstract = None, p_status = None\<rparr>"
  by (simp add: updateThesisSchema_parse_def body_ghost_title_def ZodOptional_parse_def
      ZodString_parse_def)

lemma no_ghost: "user_findUnique db0 ''ghost'' = None"
  by (simp add: user_findUnique_def db0_def admin_def alice_def bob_def)

lemma find_bob: "user_findUnique db0 ''bob'' = Some bob"
  by (simp add: user_findUnique_def db0_def admin_def alice_def bob_def)

lemma req_of_simps:
  "req_json (req_of i b) = Some b" "id_BigInt (req_of i b) = Some i"
  "currentUser (req_of i b) = Some admin"
  by (simp_all add: req_of_def)

lemma db0_simps:
  "theses db0 1 = Some thesis_X" "theses db0 99 = None" "histories db0 = []"
  "users db0 = [admin, alice, bob]" "theses db0 9223372036854775808 = None"
  by (simp_all add: db0_def)

section \<open>The claims\<close>

text \<open>
  C1 (the handler departs from it). The spec's scenario: a PUT whose body is
  \<^verbatim>\<open>{"category":"AI"}\<close> on the existing thesis titled "X" of author "alice" is to return
  200 with \<^verbatim>\<open>author_name\<close> "alice". The handler fetches the thesis without its author
  relation, so reading \<^verbatim>\<open>thesis.author.username\<close> throws after the update has been stored:
  the response is a 500, the row already carries the new category, and nothing is logged.
\<close>

theorem C1_category_only_gives_500:
  "PUT now (req_of 1 (JObject body_category_AI)) db0 =
     (NextResponse_json
        \<lparr>message = ''Internal Server Error'', errors = None,
         error = Some (TypeError_undefined ''username''), thesis' = None\<rparr> 500,
      db0\<lparr>theses := [1 \<mapsto> thesis_X\<lparr>category := ''AI'', updated_at := now\<rparr>]\<rparr>,
      [Thesis_update 1
         \<lparr>d_title = ''X'', d_category = ''AI'', d_keywords = JArray [JString ''nets''],
          d_abstract = ''An abstract'', d_status = Pending, d_author_id = 7\<rparr>])"
proof -
  have author: "find_author db0 parsed_category_AI = Inr None"
    by (simp add: find_author_def parsed_category_AI_def)
  show ?thesis
    unfolding PUT_after_update [OF req_of_simps(1) [where i = 1] parse_category_AI
        req_of_simps(2) db0_simps(1) author]
    by (simp add: thesisResponse_no_author catch_block_def updated_row_def update_data_def
        coalesce_def parsed_category_AI_def thesis_X_def db0_def)
qed

text \<open>
  C2. For every request whose body passes the schema and has no \<^verbatim>\<open>author_name\<close>, and
  whose path id is that of an existing thesis, the handler stores the merged row and then
  fails on \<^verbatim>\<open>thesis.author.username\<close>: the response is a 500 carrying that
  \<^verbatim>\<open>TypeError\<close>, the only write is the thesis update, and the history is as it was.
\<close>

theorem C2_update_persisted_then_500:
  assumes body: "req_json req = Some (JObject kvs)"
    and valid: "updateThesisSchema_parse (JObject kvs) = Inr pb"
    and omitted: "map_of kvs ''author_name'' = None"
    and ident: "id_BigInt req = Some tid"
    and found: "theses d tid = Some t"
  shows "PUT now req d =
    (NextResponse_json
       \<lparr>message = ''Internal Server Error'', errors = None,
        error = Some (TypeError_undefined ''username''), thesis' = None\<rparr> 500,
     d\<lparr>theses := (theses d)(tid \<mapsto>
          t\<lparr>title := coalesce (p_title pb) (title t),
            category := coalesce (p_category pb) (category t),
            keywords' := coalesce (map_option (\<lambda>ks. JArray (map JString ks)) (p_keywords pb))
                           (keywords' t),
            abstract' := coalesce (p_abstract pb) (abstract' t),
            status := coalesce (p_status pb) (status t),
            author_id := author_id t,
            updated_at := now\<rparr>)\<rparr>,
     [Thesis_update tid
        \<lparr>d_title = coalesce (p_title pb) (title t),
         d_category = coalesce (p_category pb) (category t),
         d_keywords = coalesce (map_option (\<lambda>ks. JArray (map JString ks)) (p_keywords pb))
                        (keywords' t),
         d_abstract = coalesce (p_abstract pb) (abstract' t),
         d_status = coalesce (p_status pb) (status t),
         d_author_id = author_id t\<rparr>])"
proof -
  have "p_author_name pb = None"
    using parse_fields(2) [OF valid] omitted optional_absent by blast
  then have author: "find_author d pb = Inr None"
    by (rule find_author_omitted)
  show ?thesis
    unfolding PUT_after_update [OF body valid ident found author]
    by (simp add: thesisResponse_no_author catch_block_def updated_row_def update_data_def
        coalesce_def)
qed

theorem C2_witness:
  "status' (fst (PUT 1000 (req_of 1 (JObject body_category_AI)) db0)) = 500
   \<and> theses (fst (snd (PUT 1000 (req_of 1 (JObject body_category_AI)) db0))) 1
       = Some (thesis_X\<lparr>category := ''AI'', updated_at := 1000\<rparr>)
   \<and> histories (fst (snd (PUT 1000 (req_of 1 (JObject body_category_AI)) db0))) = []"
proof -
  have omitted: "map_of body_category_AI ''author_name'' = None"
    by (simp add: body_category_AI_def)
  show ?thesis
    using C2_update_persisted_then_500 [OF req_of_simps(1) [where i = 1] parse_category_AI
        omitted req_of_simps(2) db0_simps(1), where now = 1000]
    by (simp add: NextResponse_json_def parsed_category_AI_def coalesce_def db0_def thesis_X_def)
qed

text \<open>
  C3 (the handler departs from it). A request whose body is empty or is no JSON text is to
  get a 400. \<^verbatim>\<open>req.json()\<close> rejects on such a body before the handler's own test of the
  body is reached, and the \<^verbatim>\<open>catch\<close> block answers every error that is no \<^verbatim>\<open>ZodError\<close> with
  a 500: whatever the rest of the request and the database are, the response is a 500.
\<close>

theorem C3_unparseable_body_gives_500:
  "PUT now (req\<lparr>req_json := None\<rparr>) d =
     (NextResponse_json
        \<lparr>message = ''Internal Server Error'', errors = None, error = Some SyntaxError_json,
         thesis' = None\<rparr> 500, d, [])"
  using PUT_json_rejects [of "req\<lparr>req_json := None\<rparr>" now d]
  by (simp add: catch_block_def)

text \<open>
  C4, as the handler has it. A request naming an author that no user has never changes the
  database and writes nothing, whatever else it holds. Once its body passes the schema and
  its path id is an integer, its status is 404 when the id is that of a thesis ("Author not
  found") or is an identifier of the store's signed 64-bit range that no thesis has
  ("Thesis not found"); for an id outside that range the store rejects the lookup and the
  status is 500. A body that fails the schema is answered first, with 400.
\<close>

theorem C4_author_not_found:
  assumes body: "req_json req = Some (JObject kvs)"
    and named: "map_of kvs ''author_name'' = Some (JString name)"
    and unknown: "user_findUnique d name = None"
  shows "snd (PUT now req d) = (d, []) \<and>
    (\<forall>pb tid. updateThesisSchema_parse (JObject kvs) = Inr pb \<and> id_BigInt req = Some tid \<longrightarrow>
       fst (PUT now req d) =
         (if theses d tid \<noteq> None
          then NextResponse_json (message_only ''Author not found'') 404
          else if int64 tid
          then NextResponse_json (message_only ''Thesis not found'') 404
          else NextResponse_json
                 \<lparr>message = ''Internal Server Error'', errors = None,
                  error = Some ValueOutOfRange, thesis' = None\<rparr> 500))"
proof (cases "updateThesisSchema_parse (JObject kvs)")
  case (Inl es)
  from PUT_invalid_body [OF body _ Inl, of now d] show ?thesis by (simp add: Inl)
next
  case (Inr pb)
  from parse_fields(2) [OF Inr] named optional_string_present [of "Some 1" _ "JString name"]
  have "p_author_name pb = Some name" "name \<noteq> []" by auto
  with unknown have author:
    "find_author d pb = Inl (NextResponse_json (message_only ''Author not found'') 404)"
    by (simp add: find_author_named)
  show ?thesis
  proof (cases "id_BigInt req")
    case None
    from PUT_bad_id [OF body Inr None, of now d] show ?thesis by (simp add: None)
  next
    case (Some tid)
    show ?thesis
    proof (cases "theses d tid")
      case None
      show ?thesis
      proof (cases "int64 tid")
        case True
        from PUT_no_thesis [OF body Inr Some None True, of now] show ?thesis
          by (simp add: Inr Some None True)
      next
        case False
        from PUT_id_out_of_range [OF body Inr Some None False, of now] show ?thesis
          by (simp add: Inr Some None False catch_block_def)
      qed
    next
      case found: (Some t)
      from PUT_no_author [OF body Inr Some found author, of now] show ?thesis
        by (simp add: Inr Some found)
    qed
  qed
qed

theorem C4_witness:
  "snd (PUT 1000 (req_of 1 (JObject body_ghost)) db0) = (db0, [])
   \<and> fst (PUT 1000 (req_of 1 (JObject body_ghost)) db0)
       = NextResponse_json (message_only ''Author not found'') 404"
proof -
  have named: "map_of body_ghost ''author_name'' = Some (JString ''ghost'')"
    by (simp add: body_ghost_def)
  show ?thesis
    using C4_author_not_found [OF req_of_simps(1) [where i = 1] named no_ghost,
        where now = 1000]
    by (simp add: parse_ghost req_of_simps db0_simps)
qed

theorem C4_counterexample:
  "map_of body_ghost_archived ''author_name'' = Some (JString ''ghost'')
   \<and> map_of body_ghost ''author_name'' = Some (JString ''ghost'')
   \<and> user_findUnique db0 ''ghost'' = None
   \<and> status' (fst (PUT 1000 (req_of 1 (JObject body_ghost_archived)) db0)) = 400
   \<and> status' (fst (PUT 1000 (req_of 9223372036854775808 (JObject body_ghost)) db0)) = 500"
proof -
  have "map_of body_ghost_archived ''author_name'' = Some (JString ''ghost'')"
    by (simp add: body_ghost_archived_def)
  moreover have "map_of body_ghost ''author_name'' = Some (JString ''ghost'')"
    by (simp add: body_ghost_def)
  moreover have "status' (fst (PUT 1000 (req_of 1 (JObject body_ghost_archived)) db0)) = 400"
    using PUT_invalid_body [OF req_of_simps(1) [where i = 1] _ parse_ghost_archived,
        where now = 1000 and d = db0]
    by (simp add: catch_block_def NextResponse_json_def)
  moreover have
    "status' (fst (PUT 1000 (req_of 9223372036854775808 (JObject body_ghost)) db0)) = 500"
    using PUT_id_out_of_range [OF req_of_simps(1) parse_ghost req_of_simps(2) db0_simps(5),
        where now = 1000]
    by (simp add: int64_def catch_block_def NextResponse_json_def)
  ultimately show ?thesis using no_ghost by simp
qed

text \<open>
  C5, as the handler has it. A request whose path id is an integer that no thesis has
  never changes the database and writes nothing (no history entry, no thesis row), whatever
  its body. Once its body passes the schema, its status is 404 when the id is an identifier
  of the store's signed 64-bit range; for an id outside that range the store rejects the
  lookup and the status is 500. A body that fails the schema is answered first, with 400.
\<close>

theorem C5_thesis_not_found:
  assumes ident: "id_BigInt req = Some tid" and missing: "theses d tid = None"
  shows "snd (PUT now req d) = (d, []) \<and>
    (\<forall>b pb. req_json req = Some b \<and> updateThesisSchema_parse b = Inr pb \<longrightarrow>
       fst (PUT now req d) =
         (if int64 tid
          then NextResponse_json (message_only ''Thesis not found'') 404
          else NextResponse_json
                 \<lparr>message = ''Internal Server Error'', errors = None,
                  error = Some ValueOutOfRange, thesis' = None\<rparr> 500))"
proof (cases "req_json req")
  case None
  from PUT_json_rejects [OF None, of now d] show ?thesis by (simp add: None)
next
  case body: (Some b)
  show ?thesis
  proof (cases "truthy b")
    case False
    from PUT_falsy_body [OF body False, of now d] parse_Inr_truthy [of b] False show ?thesis
      by (auto simp add: body)
  next
    case True
    show ?thesis
    proof (cases "updateThesisSchema_parse b")
      case (Inl es)
      from PUT_invalid_body [OF body True Inl, of now d] show ?thesis by (simp add: body Inl)
    next
      case (Inr pb)
      show ?thesis
      proof (cases "int64 tid")
        case range: True
        from PUT_no_thesis [OF body Inr ident missing range, of now] show ?thesis
          by (simp add: body Inr range)
      next
        case range: False
        from PUT_id_out_of_range [OF body Inr ident missing range, of now] show ?thesis
          by (simp add: body Inr range catch_block_def)
      qed
    qed
  qed
qed

theorem C5_witness:
  "snd (PUT 1000 (req_of 99 (JObject body_category_AI)) db0) = (db0, [])
   \<and> fst (PUT 1000 (req_of 99 (JObject body_category_AI)) db0)
       = NextResponse_json (message_only ''Thesis not found'') 404"
  using C5_thesis_not_found [OF req_of_simps(2) [where b = "JObject body_category_AI"]
      db0_simps(2), where now = 1000]
  by (simp add: req_of_simps parse_category_AI int64_def)

theorem C5_counterexample:
  "id_BigInt (req_of 99 (JObject body_archived)) = Some 99
   \<and> theses db0 99 = None
   \<and> status' (fst (PUT 1000 (req_of 99 (JObject body_archived)) db0)) = 400
   \<and> theses db0 9223372036854775808 = None
   \<and> status' (fst (PUT 1000 (req_of 9223372036854775808 (JObject body_category_AI)) db0))
       = 500"
proof -
  have "status' (fst (PUT 1000 (req_of 99 (JObject body_archived)) db0)) = 400"
    using PUT_invalid_body [OF req_of_simps(1) [where i = 99] _ parse_archived,
        where now = 1000 and d = db0]
    by (simp add: catch_block_def NextResponse_json_def)
  moreover have
    "status' (fst (PUT 1000 (req_of 9223372036854775808 (JObject body_category_AI)) db0))
       = 500"
    using PUT_id_out_of_range [OF req_of_simps(1) parse_category_AI req_of_simps(2)
        db0_simps(5), where now = 1000]
    by (simp add: int64_def catch_block_def NextResponse_json_def)
  ultimately show ?thesis by (simp add: req_of_simps db0_simps)
qed




text \<open>
  C7, as the handler has it. For every body that passes the schema and whose
  \<^verbatim>\<open>author_name\<close>, when it has one, is the username of a user, sent for an existing
  thesis: after the call the stored row has, for each of title, category, keywords,
  abstract and status, the body's value when the body has the key and the prior value
  when it has not; its author is the named user when the body names one and the prior
  author otherwise; its identifier and creation timestamp are the prior ones, and no other
  row changes. (This holds whatever the response is.) A body that names an unknown author
  changes nothing: see the counterexample.
\<close>

theorem C7_merge_patch:
  assumes body: "req_json req = Some (JObject kvs)"
    and valid: "updateThesisSchema_parse (JObject kvs) = Inr pb"
    and resolved: "\<forall>name. map_of kvs ''author_name'' = Some (JString name)
                     \<longrightarrow> user_findUnique d name \<noteq> None"
    and ident: "id_BigInt req = Some tid"
    and found: "theses d tid = Some t"
  shows "\<exists>t'. theses (fst (snd (PUT now req d))) tid = Some t'
    \<and> (case map_of kvs ''title'' of
         None \<Rightarrow> title t' = title t | Some v \<Rightarrow> v = JString (title t'))
    \<and> (case map_of kvs ''category'' of
         None \<Rightarrow> category t' = category t | Some v \<Rightarrow> v = JString (category t'))
    \<and> (case map_of kvs ''keywords'' of
         None \<Rightarrow> keywords' t' = keywords' t | Some v \<Rightarrow> v = keywords' t')
    \<and> (case map_of kvs ''abstract'' of
         None \<Rightarrow> abstract' t' = abstract' t | Some v \<Rightarrow> v = JString (abstract' t'))
    \<and> (case map_of kvs ''status'' of
         None \<Rightarrow> status t' = status t | Some v \<Rightarrow> v = JString (status_string (status t')))
    \<and> (case map_of kvs ''author_name'' of
         None \<Rightarrow> author_id t' = author_id t
       | Some v \<Rightarrow> \<exists>u. user_findUnique d (username u) = Some u \<and> v = JString (username u)
                      \<and> author_id t' = id' u)
    \<and> thesis_id t' = thesis_id t \<and> created_at t' = created_at t
    \<and> (\<forall>k. k \<noteq> tid \<longrightarrow> theses (fst (snd (PUT now req d))) k = theses d k)"
proof -
  from author_resolution [OF valid resolved]
  obtain a where a: "find_author d pb = Inr a"
    and author: "(map_of kvs ''author_name'' = None \<and> a = None)
       \<or> (\<exists>name u. map_of kvs ''author_name'' = Some (JString name)
            \<and> user_findUnique d name = Some u \<and> a = Some u)"
    by auto
  let ?t' = "updated_row t (update_data pb a t) now"
  note stored = PUT_stores(1) [OF body valid ident found a, of now]
  have "theses (fst (snd (PUT now req d))) tid = Some ?t'"
    by (simp add: stored)
  moreover have "case map_of kvs ''title'' of
         None \<Rightarrow> title ?t' = title t | Some v \<Rightarrow> v = JString (title ?t')"
    using parse_fields(1) [OF valid] optional_absent optional_string_present
    by (fastforce simp add: updated_row_def update_data_def coalesce_def split: option.splits)
  moreover have "case map_of kvs ''category'' of
         None \<Rightarrow> category ?t' = category t | Some v \<Rightarrow> v = JString (category ?t')"
    using parse_fields(3) [OF valid] optional_absent optional_string_present
    by (fastforce simp add: updated_row_def update_data_def coalesce_def split: option.splits)
  moreover have "case map_of kvs ''keywords'' of
         None \<Rightarrow> keywords' ?t' = keywords' t | Some v \<Rightarrow> v = keywords' ?t'"
    using parse_fields(4) [OF valid] optional_absent optional_array_present
    by (fastforce simp add: updated_row_def update_data_def coalesce_def split: option.splits)
  moreover have "case map_of kvs ''abstract'' of
         None \<Rightarrow> abstract' ?t' = abstract' t | Some v \<Rightarrow> v = JString (abstract' ?t')"
    using parse_fields(5) [OF valid] optional_absent optional_string_present
    by (fastforce simp add: updated_row_def update_data_def coalesce_def split: option.splits)
  moreover have "case map_of kvs ''status'' of
         None \<Rightarrow> status ?t' = status t | Some v \<Rightarrow> v = JString (status_string (status ?t'))"
    using parse_fields(6) [OF valid] optional_absent optional_enum_present
    by (fastforce simp add: updated_row_def update_data_def coalesce_def split: option.splits)
  moreover have "case map_of kvs ''author_name'' of
         None \<Rightarrow> author_id ?t' = author_id t
       | Some v \<Rightarrow> \<exists>u. user_findUnique d (username u) = Some u \<and> v = JString (username u)
                      \<and> author_id ?t' = id' u"
    using author user_findUnique_username
    by (fastforce simp add: updated_row_def update_data_def coalesce_def)
  moreover have "thesis_id ?t' = thesis_id t \<and> created_at ?t' = created_at t"
    by (simp add: updated_row_def)
  moreover have "\<forall>k. k \<noteq> tid \<longrightarrow> theses (fst (snd (PUT now req d))) k = theses d k"
    by (simp add: stored)
  ultimately show ?thesis by blast
qed

theorem C7_witness:
  "\<exists>t'. theses (fst (snd (PUT 1000 (req_of 1 (JObject body_category_AI)) db0))) 1 = Some t'
     \<and> category t' = ''AI'' \<and> title t' = title thesis_X \<and> keywords' t' = keywords' thesis_X
     \<and> abstract' t' = abstract' thesis_X \<and> status t' = status thesis_X
     \<and> author_id t' = author_id thesis_X"
proof -
  have resolved: "\<forall>name. map_of body_category_AI ''author_name'' = Some (JString name)
                    \<longrightarrow> user_findUnique db0 name \<noteq> None"
    by (simp add: body_category_AI_def)
  from C7_merge_patch [OF req_of_simps(1) [where i = 1] parse_category_AI resolved
      req_of_simps(2) db0_simps(1), where now = 1000]
  show ?thesis
    by (auto simp add: body_category_AI_def)
qed

theorem C7_counterexample:
  "updateThesisSchema_parse (JObject body_ghost_title) =
     Inr \<lparr>p_title = Some ''New'', p_author_name = Some ''ghost'', p_category = None,
          p_keywords = None, p_abstract = None, p_status = None\<rparr>
   \<and> map_of body_ghost_title ''title'' = Some (JString ''New'')
   \<and> theses db0 1 = Some thesis_X
   \<and> theses (fst (snd (PUT 1000 (req_of 1 (JObject body_ghost_title)) db0))) 1 = Some thesis_X
   \<and> title thesis_X = ''X''"
proof -
  have author: "find_author db0
      \<lparr>p_title = Some ''New'', p_author_name = Some ''ghost'', p_category = None,
       p_keywords = None, p_abstract = None, p_status = None\<rparr>
      = Inl (NextResponse_json (message_only ''Author not found'') 404)"
    by (simp add: find_author_def no_ghost)
  have "map_of body_ghost_title ''title'' = Some (JString ''New'')"
    by (simp add: body_ghost_title_def)
  moreover have "title thesis_X = ''X''"
    by (simp add: thesis_X_def)
  ultimately show ?thesis
    using PUT_no_author [OF req_of_simps(1) [where i = 1] parse_ghost_title req_of_simps(2)
        db0_simps(1) author, where now = 1000]
    by (simp add: parse_ghost_title db0_simps)
qed

text \<open>
  C8. A body that passes the schema and whose \<^verbatim>\<open>author_name\<close>, when it has one, is the
  username of a user (a full payload in particular), sent twice for an existing thesis:
  after the second call the stored row is the row after the first call but for
  \<^verbatim>\<open>updated_at\<close>; the other rows and the users are the same.
\<close>

theorem C8_idempotent:
  assumes body: "req_json req = Some (JObject kvs)"
    and valid: "updateThesisSchema_parse (JObject kvs) = Inr pb"
    and resolved: "\<forall>name. map_of kvs ''author_name'' = Some (JString name)
                     \<longrightarrow> user_findUnique d name \<noteq> None"
    and ident: "id_BigInt req = Some tid"
    and found: "theses d tid = Some t"
    and first: "PUT now1 req d = (r1, d1, w1)"
    and second: "PUT now2 req d1 = (r2, d2, w2)"
  shows "\<exists>t1 t2. theses d1 tid = Some t1 \<and> theses d2 tid = Some t2
           \<and> t2\<lparr>updated_at := updated_at t1\<rparr> = t1
           \<and> (\<forall>k. k \<noteq> tid \<longrightarrow> theses d2 k = theses d1 k)
           \<and> users d2 = users d1"
proof -
  from author_resolution [OF valid resolved]
  obtain a where a: "find_author d pb = Inr a" by blast
  let ?t1 = "updated_row t (update_data pb a t) now1"
  from PUT_stores [OF body valid ident found a, of now1] first
  have d1: "theses d1 = (theses d)(tid \<mapsto> ?t1)" "users d1 = users d" by simp_all
  then have found1: "theses d1 tid = Some ?t1" by simp
  from a find_author_users [OF d1(2), of pb] have a1: "find_author d1 pb = Inr a"
    by simp
  from PUT_stores [OF body valid ident found1 a1, of now2] second
  have d2: "theses d2 = (theses d1)(tid \<mapsto> updated_row ?t1 (update_data pb a ?t1) now2)"
    "users d2 = users d1" by simp_all
  show ?thesis
  proof (intro exI conjI)
    show "theses d1 tid = Some ?t1" by (rule found1)
    show "theses d2 tid = Some (?t1\<lparr>updated_at := now2\<rparr>)"
      by (simp add: d2(1) remerge)
    show "(?t1\<lparr>updated_at := now2\<rparr>)\<lparr>updated_at := updated_at ?t1\<rparr> = ?t1"
      by simp
    show "\<forall>k. k \<noteq> tid \<longrightarrow> theses d2 k = theses d1 k"
      by (simp add: d2(1))
    show "users d2 = users d1" by (rule d2(2))
  qed
qed

theorem C8_witness:
  "\<exists>t1 t2.
     theses (fst (snd (PUT 1000 (req_of 1 (JObject body_full)) db0))) 1 = Some t1
   \<and> theses (fst (snd (PUT 2000 (req_of 1 (JObject body_full))
               (fst (snd (PUT 1000 (req_of 1 (JObject body_full)) db0)))))) 1 = Some t2
   \<and> t2\<lparr>updated_at := updated_at t1\<rparr> = t1"
proof -
  have resolved: "\<forall>name. map_of body_full ''author_name'' = Some (JString name)
                    \<longrightarrow> user_findUnique db0 name \<noteq> None"
    by (simp add: body_full_def find_bob)
  have first: "PUT 1000 (req_of 1 (JObject body_full)) db0
      = (fst (PUT 1000 (req_of 1 (JObject body_full)) db0),
         fst (snd (PUT 1000 (req_of 1 (JObject body_full)) db0)),
         snd (snd (PUT 1000 (req_of 1 (JObject body_full)) db0)))"
    by simp
  have second: "PUT 2000 (req_of 1 (JObject body_full))
        (fst (snd (PUT 1000 (req_of 1 (JObject body_full)) db0)))
      = (fst (PUT 2000 (req_of 1 (JObject body_full))
           (fst (snd (PUT 1000 (req_of 1 (JObject body_full)) db0)))),
         fst (snd (PUT 2000 (req_of 1 (JObject body_full))
           (fst (snd (PUT 1000 (req_of 1 (JObject body_full)) db0))))),
         snd (snd (PUT 2000 (req_of 1 (JObject body_full))
           (fst (snd (PUT 1000 (req_of 1 (JObject body_full)) db0))))))"
    by simp
  from C8_idempotent [OF req_of_simps(1) [where i = 1] parse_full resolved req_of_simps(2)
      db0_simps(1) first second]
  show ?thesis by blast
qed

text \<open>
  C9. On every 200 response the \<^verbatim>\<open>thesis\<close> object has, under \<^verbatim>\<open>thesis_id\<close>, a JSON
  string: the decimal numeral of the stored row's identifier, from which the identifier is
  read back exactly; and, under \<^verbatim>\<open>created_at\<close> and \<^verbatim>\<open>updated_at\<close>, JSON strings: what
  \<^verbatim>\<open>toISOString\<close> gives for the row's two timestamps, each of the ISO 8601 form
  \<^verbatim>\<open>YYYY-MM-DDTHH:mm:ss.sssZ\<close> (or with the expanded year \<^verbatim>\<open>+/-YYYYYY\<close>), and each
  the string of a date of the calendar from which the timestamp is read back exactly.
\<close>

theorem C9_identifier_and_timestamps_as_strings:
  assumes run: "PUT now req d = (r, d', ws)" and ok: "status' r = 200"
  shows "\<exists>fields tid t' c u.
      thesis' (payload r) = Some (JObject fields)
    \<and> id_BigInt req = Some tid \<and> theses d' tid = Some t'
    \<and> map_of fields ''thesis_id'' = Some (JString (BigInt_toString (thesis_id t')))
    \<and> decimal_numeral (BigInt_toString (thesis_id t'))
    \<and> decimal_value (BigInt_toString (thesis_id t')) = thesis_id t'
    \<and> map_of fields ''created_at'' = Some (JString c)
    \<and> toISOString (created_at t') = Inr c \<and> iso8601 c
    \<and> iso8601_time_value c = Some (created_at t')
    \<and> map_of fields ''updated_at'' = Some (JString u)
    \<and> toISOString (updated_at t') = Inr u \<and> iso8601 u
    \<and> iso8601_time_value u = Some (updated_at t')"
proof -
  from run ok have "status' (fst (PUT now req d)) = 200" by simp
  from PUT_200 [OF this] run
  obtain pb tid t a cu tr where tid: "id_BigInt req = Some tid"
    and tr: "thesisResponse (updated_row t (update_data pb (Some a) t) now) (Some a)
               \<lparr>row = t, author = None\<rparr> = Inr tr"
    and r: "r = NextResponse_json
           \<lparr>message = ''Thesis updated successfully'', errors = None, error = None,
            thesis' = Some tr\<rparr> 200"
    and d': "d' = history_create
              (d\<lparr>theses := (theses d)(tid \<mapsto> updated_row t (update_data pb (Some a) t) now)\<rparr>)
              (history_entry cu (updated_row t (update_data pb (Some a) t) now))"
    by auto
  let ?t' = "updated_row t (update_data pb (Some a) t) now"
  from thesisResponse_fields [OF tr]
  obtain name c u where c: "toISOString (created_at ?t') = Inr c"
    and u: "toISOString (updated_at ?t') = Inr u"
    and fields: "tr = JObject
        [(''thesis_id'', JString (BigInt_toString (thesis_id ?t'))),
         (''title'', JString (title ?t')),
         (''author_name'', JString name),
         (''category'', JString (category ?t')),
         (''keywords'', keywords' ?t'),
         (''abstract'', JString (abstract' ?t')),
         (''status'', JString (status_string (status ?t'))),
         (''created_at'', JString c),
         (''updated_at'', JString u)]"
    by blast
  let ?fields = "[(''thesis_id'', JString (BigInt_toString (thesis_id ?t'))),
         (''title'', JString (title ?t')),
         (''author_name'', JString name),
         (''category'', JString (category ?t')),
         (''keywords'', keywords' ?t'),
         (''abstract'', JString (abstract' ?t')),
         (''status'', JString (status_string (status ?t'))),
         (''created_at'', JString c),
         (''updated_at'', JString u)]"
  have "thesis' (payload r) = Some (JObject ?fields)
    \<and> id_BigInt req = Some tid \<and> theses d' tid = Some ?t'
    \<and> map_of ?fields ''thesis_id'' = Some (JString (BigInt_toString (thesis_id ?t')))
    \<and> decimal_numeral (BigInt_toString (thesis_id ?t'))
    \<and> decimal_value (BigInt_toString (thesis_id ?t')) = thesis_id ?t'
    \<and> map_of ?fields ''created_at'' = Some (JString c)
    \<and> toISOString (created_at ?t') = Inr c \<and> iso8601 c
    \<and> iso8601_time_value c = Some (created_at ?t')
    \<and> map_of ?fields ''updated_at'' = Some (JString u)
    \<and> toISOString (updated_at ?t') = Inr u \<and> iso8601 u
    \<and> iso8601_time_value u = Some (updated_at ?t')"
  proof (intro conjI)
    show "thesis' (payload r) = Some (JObject ?fields)"
      by (simp add: r fields NextResponse_json_def)
    show "id_BigInt req = Some tid" by (rule tid)
    show "theses d' tid = Some ?t'" by (simp add: d' history_create_def)
    show "map_of ?fields ''thesis_id'' = Some (JString (BigInt_toString (thesis_id ?t')))"
      by simp
    show "decimal_numeral (BigInt_toString (thesis_id ?t'))"
      by (rule decimal_numeral_BigInt_toString)
    show "decimal_value (BigInt_toString (thesis_id ?t')) = thesis_id ?t'"
      by (rule decimal_value_BigInt_toString)
    show "map_of ?fields ''created_at'' = Some (JString c)" by simp
    show "toISOString (created_at ?t') = Inr c" by (rule c)
    show "iso8601 c" by (rule toISOString_iso8601 [OF c])
    show "iso8601_time_value c = Some (created_at ?t')" by (rule toISOString_time_value [OF c])
    show "map_of ?fields ''updated_at'' = Some (JString u)" by simp
    show "toISOString (updated_at ?t') = Inr u" by (rule u)
    show "iso8601 u" by (rule toISOString_iso8601 [OF u])
    show "iso8601_time_value u = Some (updated_at ?t')" by (rule toISOString_time_value [OF u])
  qed
  then show ?thesis by blast
qed

theorem C9_witness:
  "\<exists>fields tid t' c u.
      thesis' (payload (fst (PUT 1000 (req_of 1 (JObject body_full)) db0)))
        = Some (JObject fields)
    \<and> id_BigInt (req_of 1 (JObject body_full)) = Some tid
    \<and> theses (fst (snd (PUT 1000 (req_of 1 (JObject body_full)) db0))) tid = Some t'
    \<and> map_of fields ''thesis_id'' = Some (JString (BigInt_toString (thesis_id t')))
    \<and> decimal_numeral (BigInt_toString (thesis_id t'))
    \<and> decimal_value (BigInt_toString (thesis_id t')) = thesis_id t'
    \<and> map_of fields ''created_at'' = Some (JString c)
    \<and> toISOString (created_at t') = Inr c \<and> iso8601 c
    \<and> iso8601_time_value c = Some (created_at t')
    \<and> map_of fields ''updated_at'' = Some (JString u)
    \<and> toISOString (updated_at t') = Inr u \<and> iso8601 u
    \<and> iso8601_time_value u = Some (updated_at t')
    \<and> thesis_id t' = 1 \<and> created_at t' = 0 \<and> updated_at t' = 1000"
proof -
  have author: "find_author db0 parsed_full = Inr (Some bob)"
    by (simp add: find_author_def parsed_full_def find_bob)
  have ok: "status' (fst (PUT 1000 (req_of 1 (JObject body_full)) db0)) = 200"
    by (rule PUT_succeeds [OF req_of_simps(1) [where i = 1] parse_full req_of_simps(2)
          db0_simps(1) author req_of_simps(3)])
      (simp_all add: thesis_X_def)
  have run: "PUT 1000 (req_of 1 (JObject body_full)) db0
      = (fst (PUT 1000 (req_of 1 (JObject body_full)) db0),
         fst (snd (PUT 1000 (req_of 1 (JObject body_full)) db0)),
         snd (snd (PUT 1000 (req_of 1 (JObject body_full)) db0)))"
    by simp
  note stored = PUT_stores(1) [OF req_of_simps(1) [where i = 1] parse_full req_of_simps(2)
      db0_simps(1) author, of 1000]
  from C9_identifier_and_timestamps_as_strings [OF run ok]
  obtain fields tid t' c u where
      f: "thesis' (payload (fst (PUT 1000 (req_of 1 (JObject body_full)) db0)))
        = Some (JObject fields)"
    and tid: "id_BigInt (req_of 1 (JObject body_full)) = Some tid"
    and t': "theses (fst (snd (PUT 1000 (req_of 1 (JObject body_full)) db0))) tid = Some t'"
    and rest: "map_of fields ''thesis_id'' = Some (JString (BigInt_toString (thesis_id t')))"
      "decimal_numeral (BigInt_toString (thesis_id t'))"
      "decimal_value (BigInt_toString (thesis_id t')) = thesis_id t'"
      "map_of fields ''created_at'' = Some (JString c)"
      "toISOString (created_at t') = Inr c" "iso8601 c"
      "iso8601_time_value c = Some (created_at t')"
      "map_of fields ''updated_at'' = Some (JString u)"
      "toISOString (updated_at t') = Inr u" "iso8601 u"
      "iso8601_time_value u = Some (updated_at t')"
    by blast
  from tid have "tid = 1" by (simp add: req_of_simps(2))
  with t' stored have "t' = updated_row thesis_X (update_data parsed_full (Some bob) thesis_X) 1000"
    by simp
  then have "thesis_id t' = 1 \<and> created_at t' = 0 \<and> updated_at t' = 1000"
    by (simp add: updated_row_def thesis_X_def)
  with f tid t' rest show ?thesis by blast
qed

text \<open>
  C10. Every call that returns 200 performs two writes and no more: first the update of the
  thesis row of the path id, then the insert of one history entry. The entry is of the
  session's user, its action is "Updated Thesis", and its description is
  \<^verbatim>\<open>Thesis titled "<title>" updated by <email>\<close> with the title of the updated row and
  the email of the session's user, so that it contains both.
\<close>

theorem C10_one_update_then_one_log:
  assumes run: "PUT now req d = (r, d', ws)" and ok: "status' r = 200"
  shows "\<exists>tid data t' cu h.
      ws = [Thesis_update tid data, History_create h]
    \<and> id_BigInt req = Some tid \<and> currentUser req = Some cu
    \<and> theses d' = (theses d)(tid \<mapsto> t') \<and> title t' = d_title data
    \<and> histories d' = histories d @ [h] \<and> users d' = users d
    \<and> user_id h = id' cu \<and> action h = ''Updated Thesis''
    \<and> description h
         = ''Thesis titled '' @ [CHR 0x22] @ title t' @ [CHR 0x22] @ '' updated by '' @ email cu
    \<and> sublist (title t') (description h) \<and> sublist (email cu) (description h)"
proof -
  from run ok have "status' (fst (PUT now req d)) = 200" by simp
  from PUT_200 [OF this] run
  obtain pb tid t u cu where tid: "id_BigInt req = Some tid" and cu: "currentUser req = Some cu"
    and result:
      "d' = history_create
              (d\<lparr>theses := (theses d)(tid \<mapsto> updated_row t (update_data pb (Some u) t) now)\<rparr>)
              (history_entry cu (updated_row t (update_data pb (Some u) t) now))"
      "ws = [Thesis_update tid (update_data pb (Some u) t),
             History_create (history_entry cu (updated_row t (update_data pb (Some u) t) now))]"
    by auto
  let ?data = "update_data pb (Some u) t"
  let ?t' = "updated_row t ?data now"
  let ?h = "history_entry cu ?t'"
  have "ws = [Thesis_update tid ?data, History_create ?h]
    \<and> id_BigInt req = Some tid \<and> currentUser req = Some cu
    \<and> theses d' = (theses d)(tid \<mapsto> ?t') \<and> title ?t' = d_title ?data
    \<and> histories d' = histories d @ [?h] \<and> users d' = users d
    \<and> user_id ?h = id' cu \<and> action ?h = ''Updated Thesis''
    \<and> description ?h
         = ''Thesis titled '' @ [CHR 0x22] @ title ?t' @ [CHR 0x22] @ '' updated by '' @ email cu
    \<and> sublist (title ?t') (description ?h) \<and> sublist (email cu) (description ?h)"
    using tid cu result description_mentions [where t' = ?t' and cu = cu]
    by (simp add: history_create_def history_entry_def updated_row_def)
  then show ?thesis by blast
qed

theorem C10_witness:
  "\<exists>tid data t' cu h.
      snd (snd (PUT 1000 (req_of 1 (JObject body_full)) db0))
        = [Thesis_update tid data, History_create h]
    \<and> id_BigInt (req_of 1 (JObject body_full)) = Some tid
    \<and> currentUser (req_of 1 (JObject body_full)) = Some cu
    \<and> theses (fst (snd (PUT 1000 (req_of 1 (JObject body_full)) db0)))
        = (theses db0)(tid \<mapsto> t')
    \<and> title t' = d_title data
    \<and> histories (fst (snd (PUT 1000 (req_of 1 (JObject body_full)) db0)))
        = histories db0 @ [h]
    \<and> users (fst (snd (PUT 1000 (req_of 1 (JObject body_full)) db0))) = users db0
    \<and> user_id h = id' cu \<and> action h = ''Updated Thesis''
    \<and> description h
         = ''Thesis titled '' @ [CHR 0x22] @ title t' @ [CHR 0x22] @ '' updated by '' @ email cu
    \<and> sublist (title t') (description h) \<and> sublist (email cu) (description h)"
proof -
  have author: "find_author db0 parsed_full = Inr (Some bob)"
    by (simp add: find_author_def parsed_full_def find_bob)
  have ok: "status' (fst (PUT 1000 (req_of 1 (JObject body_full)) db0)) = 200"
    by (rule PUT_succeeds [OF req_of_simps(1) [where i = 1] parse_full req_of_simps(2)
          db0_simps(1) author req_of_simps(3)])
      (simp_all add: thesis_X_def)
  have run: "PUT 1000 (req_of 1 (JObject body_full)) db0
      = (fst (PUT 1000 (req_of 1 (JObject body_full)) db0),
         fst (snd (PUT 1000 (req_of 1 (JObject body_full)) db0)),
         snd (snd (PUT 1000 (req_of 1 (JObject body_full)) db0)))"
    by simp
  show ?thesis
    by (rule C10_one_update_then_one_log [OF run ok])
qed

end
